theory Spec2Isabelle
  imports Complex_Main "HOL-Library.Sublist" "HOL-Library.AList"
begin

section \<open>Values of the JavaScript program\<close>

text \<open>
  A rejection reason or thrown value. \<open>DropboxResponseError e d\<close> is an instance of the
  SDK's \<open>DropboxResponseError\<close> whose body carries \<open>reason.error.error = e\<close> and
  \<open>reason.error.error_description = d\<close>. \<open>Error m c\<close> is \<open>new Error(m, { cause: c })\<close>
  (\<open>None\<close>: no cause given); every rejection that is not a \<open>DropboxResponseError\<close>
  (a network failure, a \<open>TypeError\<close>, a \<open>SyntaxError\<close>) is such a value.
\<close>

datatype reason =
    DropboxResponseError (error_code: string) (error_description: string)
  | Error (err_message: string) (err_cause: "reason option")

text \<open>
  What awaiting a promise gives: its value, its rejection reason, or nothing at all when
  the promise is never settled.
\<close>

datatype 'a outcome = Fulfilled 'a | Rejected reason | Pending

text \<open>
  The result of \<open>JSON.parse\<close>. The number's payload is never inspected by the program.
  An object is the list of its own properties; a parsed object has one value per key.
\<close>

datatype json =
    JNull
  | JBool bool
  | JNum int
  | JStr string
  | JArr "json list"
  | JObj "(string \<times> json) list"

text \<open>
  A \<open>URL\<close> object: \<open>search\<close> is the raw query string, \<open>searchParams\<close> the decoded
  query parameters in order (\<open>get\<close> reads the first of a name, \<open>null\<close> when there is none).
\<close>

record url =
  search :: string
  searchParams :: "(string \<times> string) list"

definition has :: "url \<Rightarrow> string \<Rightarrow> bool" where
  "has u k = (map_of (searchParams u) k \<noteq> None)"

definition get :: "url \<Rightarrow> string \<Rightarrow> string option" where
  "get u k = map_of (searchParams u) k"

text \<open>The \<open>TokenInfo\<close> of the code-exchange endpoint (\<open>response.result\<close>).\<close>

record TokenInfo =
  access_token :: string
  refresh_token :: "string option"
  expires_in :: int

text \<open>A \<open>File\<close>: \<open>file.name\<close> and \<open>file.size\<close>; its bytes are opaque.\<close>

record File =
  file_name :: string
  file_size :: nat

text \<open>A message event delivered to the opener window.\<close>

datatype msg_data =
    NullData                \<comment> \<open>\<open>event.data\<close> is \<open>null\<close> or \<open>undefined\<close>\<close>
  | NoMarker                \<comment> \<open>\<open>event.data\<close> has no own property \<open>OAuthRedirect\<close>\<close>
  | OAuthRedirect "url option"
      \<comment> \<open>\<open>event.data.OAuthRedirect\<close>, as \<open>new URL\<close> reads it (\<open>None\<close>: \<open>new URL\<close> throws)\<close>

datatype event =
    Message (data: msg_data) (from_popup: bool)
      \<comment> \<open>\<open>from_popup\<close>: \<open>event.source\<close> is the popup this attempt opened\<close>
  | TimerFires

text \<open>Every call the program makes to the SDK, the token storage or the platform.\<close>

datatype call =
    CheckAndRefreshAccessToken
  | ConsoleDebug reason
  | SaveToken "string option"
  | CheckUser string
  | GetAuthenticationUrl string string "string option" string
      \<comment> \<open>redirect URI, state, app identifier, token type\<close>
  | GetAccessTokenFromCode string "string option"
  | WindowOpen
  | AddEventListener
  | SetTimeout nat
  | SetPopupLocation string
  | PopupFocus
  | StopImmediatePropagation
  | PopupClose
  | RemoveEventListener
  | LocationReplace string
  | FilesUpload string
  | FilesUploadSessionStart
  | FilesUploadSessionAppendV2 string nat "nat \<times> nat"
      \<comment> \<open>session id, cursor offset, byte range of the chunk\<close>
  | FilesUploadSessionFinish string nat string
      \<comment> \<open>session id, cursor offset, commit path\<close>

datatype refresh_result =
    RefreshOk "(string \<times> int) option"
      \<comment> \<open>resolved; \<open>Some (token, expiry)\<close> when the SDK renewed the access token\<close>
  | RefreshFailed reason

text \<open>
  The object's fields (\<open>#redirectURI\<close>, \<open>#appId\<close>, \<open>#useOfflineToken\<close>,
  \<open>#usePopupRedirect\<close>), set once by the constructor.
\<close>

record config =
  redirectURI :: string
  appId :: "string option"
  useOfflineToken :: bool
  usePopupRedirect :: bool

text \<open>
  The mutable state: the SDK's \<open>dbx.auth\<close> fields, the injected \<open>#tokenStorage\<close>
  (\<open>None\<close>: none was injected; \<open>Some t\<close>: a capability that holds \<open>t\<close>), the
  session-scoped storage, the page's URL, and the calls issued so far.
\<close>

record world =
  refreshToken :: "string option"
  accessToken :: "string option"
  accessTokenExpiresAt :: "int option"
  codeVerifier :: "string option"
  tokenStorage :: "string option option"
  sessionStorage :: "(string \<times> string) list"
  location :: url
  trace :: "call list"

text \<open>
  What the outside answers: the responses of the remote endpoints, the values of
  \<open>crypto.randomUUID()\<close> and \<open>Date.now()\<close>, \<open>JSON.parse\<close> (\<open>None\<close>: it throws a
  \<open>SyntaxError\<close>), whether \<open>window.open\<close> gives a popup, and the events the window
  receives after the popup was opened.
\<close>

record env =
  refresh_response :: refresh_result
  uuid_query :: string
  uuid_state :: string
  checkUser_response :: "string \<Rightarrow> reason + string"
  json_parse :: "string \<Rightarrow> json option"
  authUrl_response :: "reason + string \<times> string"
  window_open :: bool
  events :: "event list"
  exchange_response :: "reason + TokenInfo"
  now :: int
  filesUpload_response :: "reason + string"
  sessionStart_response :: "reason + string"
  sessionAppend_response :: "nat \<Rightarrow> reason option"
  sessionFinish_response :: "reason + string"

text \<open>JavaScript truthiness of a string or \<open>null\<close>: \<open>null\<close> and \<open>''\<close> are falsy.\<close>

definition truthy :: "string option \<Rightarrow> bool" where
  "truthy t = (case t of None \<Rightarrow> False | Some s \<Rightarrow> s \<noteq> [])"

definition called :: "call \<Rightarrow> world \<Rightarrow> world" where
  "called c w = w\<lparr>trace := trace w @ [c]\<rparr>"

section \<open>Error wrapping\<close>

text \<open>\<open>catchCallback(message)(reason)\<close>: the error it throws.\<close>

fun catchCallback :: "string \<Rightarrow> reason \<Rightarrow> reason" where
  "catchCallback message (DropboxResponseError e d) =
     Error (message @ [CHR 0x0A] @ ''DropboxResponseError('' @ e @ ''): '' @ d @ ''.'')
       (Some (DropboxResponseError e d))"
| "catchCallback message reason = Error message (Some reason)"

section \<open>Token refresh and liveness check\<close>

text \<open>
  \<open>dbx.auth.checkAndRefreshAccessToken()\<close> of the SDK: on success it may have renewed
  the access token and its expiry; on failure it leaves the credential as it is.
\<close>

definition checkAndRefreshAccessToken :: "env \<Rightarrow> world \<Rightarrow> (reason + unit) \<times> world" where
  "checkAndRefreshAccessToken e w =
     (let w1 = called CheckAndRefreshAccessToken w in
      case refresh_response e of
        RefreshOk None \<Rightarrow> (Inr (), w1)
      | RefreshOk (Some (t, x)) \<Rightarrow>
          (Inr (), w1\<lparr>accessToken := Some t, accessTokenExpiresAt := Some x\<rparr>)
      | RefreshFailed r \<Rightarrow> (Inl r, w1))"

text \<open>
  \<open>this.#tokenStorage?.saveToken(token)\<close>: nothing happens without a storage. An
  injected \<open>saveToken\<close> stores the value and returns, as the contract of the capability
  says.
\<close>

definition saveToken :: "string option \<Rightarrow> world \<Rightarrow> world" where
  "saveToken t w =
     (case tokenStorage w of
        None \<Rightarrow> w
      | Some _ \<Rightarrow> called (SaveToken t) (w\<lparr>tokenStorage := Some t\<rparr>))"

definition invalid_grant :: "reason \<Rightarrow> bool" where
  "invalid_grant r =
     (case r of DropboxResponseError e d \<Rightarrow> e = ''invalid_grant'' | Error m c \<Rightarrow> False)"

definition OAuthRefreshToken :: "env \<Rightarrow> world \<Rightarrow> bool outcome \<times> world" where
  "OAuthRefreshToken e w =
     (if truthy (refreshToken w) then
        (case checkAndRefreshAccessToken e w of
           (Inr _, w1) \<Rightarrow> (Fulfilled True, w1)
         | (Inl r, w1) \<Rightarrow>
             if invalid_grant r then
               (let w2 = called (ConsoleDebug (Error
                            (''Error refreshing token: '' @ error_description r
                               @ ''. Removing refresh token.'') (Some r))) w1;
                    w3 = w2\<lparr>refreshToken := None\<rparr>;
                    w4 = saveToken None w3
                in (Fulfilled False, w4))
             else (Rejected (catchCallback ''Error refreshing token!'' r), w1))
      else (Fulfilled True, w))"

definition OAuthCheckToken :: "env \<Rightarrow> world \<Rightarrow> bool outcome \<times> world" where
  "OAuthCheckToken e w =
     (case OAuthRefreshToken e w of
        (Fulfilled True, w1) \<Rightarrow>
          (let query = uuid_query e; w2 = called (CheckUser query) w1 in
           case checkUser_response e query of
             Inr echoed \<Rightarrow> (Fulfilled (echoed = query), w2)
           | Inl r \<Rightarrow> (Fulfilled False, w2))
      | (Fulfilled False, w1) \<Rightarrow> (Fulfilled False, w1)
      | (Rejected r, w1) \<Rightarrow> (Rejected r, w1)
      | (Pending, w1) \<Rightarrow> (Pending, w1))"

section \<open>The redirect handler\<close>

text \<open>
  \<open>JSON.parse(redirect.get('state'))\<close>: a missing parameter is \<open>null\<close>, which
  \<open>JSON.parse\<close> reads as the text \<open>null\<close>.
\<close>

definition JSON_parse :: "env \<Rightarrow> string option \<Rightarrow> reason + json" where
  "JSON_parse e t =
     (case t of
        None \<Rightarrow> Inr JNull
      | Some s \<Rightarrow>
          (case json_parse e s of
             None \<Rightarrow> Inl (Error ''SyntaxError'' None)
           | Some j \<Rightarrow> Inr j))"

text \<open>
  \<open>Object.getOwnPropertyDescriptor(stateObj, 'state')?.value\<close>: a \<open>TypeError\<close> on
  \<open>null\<close>, the own property of an object, \<open>undefined\<close> (\<open>None\<close>) where there is no
  such own property.
\<close>

definition redirectState :: "json \<Rightarrow> reason + json option" where
  "redirectState stateObj =
     (case stateObj of
        JNull \<Rightarrow> Inl (Error ''TypeError'' None)
      | JObj kvs \<Rightarrow> Inr (map_of kvs ''state'')
      | _ \<Rightarrow> Inr None)"

text \<open>
  \<open>OAuthState === redirectState\<close>, for \<open>OAuthState\<close> a string or \<open>null\<close>: strings are
  equal by content, \<open>null\<close> only to \<open>null\<close>, and nothing else is equal to either.
\<close>

definition strict_eq :: "string option \<Rightarrow> json option \<Rightarrow> bool" where
  "strict_eq s v =
     (case (s, v) of
        (Some a, Some (JStr b)) \<Rightarrow> a = b
      | (None, Some JNull) \<Rightarrow> True
      | _ \<Rightarrow> False)"

text \<open>What one run of the handler does: it calls one resolver, or it throws.\<close>

datatype handled = Resolve "string option" | Reject reason | Throw reason

definition OAuthRedirectHandler :: "env \<Rightarrow> string option \<Rightarrow> url \<Rightarrow> handled" where
  "OAuthRedirectHandler e OAuthState redirectURL =
     (case JSON_parse e (get redirectURL ''state'') of
        Inl r \<Rightarrow> Throw r
      | Inr stateObj \<Rightarrow>
          (case redirectState stateObj of
             Inl r \<Rightarrow> Throw r
           | Inr rs \<Rightarrow>
               if strict_eq OAuthState rs then Resolve (get redirectURL ''code'')
               else Reject (Error
                 (''Mismatched state on redirect, something has gone wrong. The search string was ''
                    @ [CHR 0x22] @ search redirectURL @ [CHR 0x22] @ ''.'') None)))"

section \<open>The popup channel\<close>

text \<open>
  One authorization attempt through a popup: the promise of \<open>Promise.withResolvers()\<close>,
  whether the message listener is registered, whether the timer is still to fire, and
  the platform calls issued.
\<close>

record attempt =
  promise :: "string option outcome"
  listening :: bool
  timer :: bool
  calls :: "call list"

text \<open>The resolvers of a promise: only the first call settles it.\<close>

definition OAuthResolve :: "string option \<Rightarrow> attempt \<Rightarrow> attempt" where
  "OAuthResolve v a = (if promise a = Pending then a\<lparr>promise := Fulfilled v\<rparr> else a)"

definition OAuthReject :: "reason \<Rightarrow> attempt \<Rightarrow> attempt" where
  "OAuthReject r a = (if promise a = Pending then a\<lparr>promise := Rejected r\<rparr> else a)"

text \<open>Decimal text of a number, as a template literal prints it.\<close>

fun digits :: "nat \<Rightarrow> string" where
  "digits n =
     (if n < 10 then [''0123456789'' ! n] else digits (n div 10) @ [''0123456789'' ! (n mod 10)])"

declare digits.simps [simp del]

text \<open>
  A throw inside the listener (\<open>Object.hasOwn\<close> on \<open>null\<close>, \<open>new URL\<close>,
  \<open>JSON.parse\<close>, \<open>getOwnPropertyDescriptor\<close>) ends that run of the listener and leaves
  the attempt as it was.
\<close>

definition popupRedirectHandler :: "env \<Rightarrow> string \<Rightarrow> msg_data \<Rightarrow> bool \<Rightarrow> attempt \<Rightarrow> attempt" where
  "popupRedirectHandler e OAuthState d src a =
     (case d of
        NullData \<Rightarrow> a
      | NoMarker \<Rightarrow> a
      | OAuthRedirect u \<Rightarrow>
          if src then
            (case u of
               None \<Rightarrow> a
             | Some redirectURL \<Rightarrow>
                 (case OAuthRedirectHandler e (Some OAuthState) redirectURL of
                    Throw r \<Rightarrow> a
                  | Resolve c \<Rightarrow>
                      (let a1 = OAuthResolve c a
                       in a1\<lparr>calls := calls a1 @ [StopImmediatePropagation]\<rparr>)
                  | Reject r \<Rightarrow>
                      (let a1 = OAuthReject r a
                       in a1\<lparr>calls := calls a1 @ [StopImmediatePropagation]\<rparr>)))
          else a)"

definition popupTimeoutHandler :: "nat \<Rightarrow> attempt \<Rightarrow> attempt" where
  "popupTimeoutHandler timeout a =
     OAuthReject (Error (''OAuth timed out after '' @ digits timeout @ '' seconds.'') None) a"

definition popupRedirectCleanup :: "attempt \<Rightarrow> attempt" where
  "popupRedirectCleanup a =
     a\<lparr>listening := False, calls := calls a @ [PopupClose, RemoveEventListener]\<rparr>"

text \<open>
  \<open>OAuthPromise.finally(cleanupHandler)\<close>: the reaction runs when the promise settles,
  as a microtask right after the task that settled it.
\<close>

definition promise_finally :: "attempt \<Rightarrow> attempt \<Rightarrow> attempt" where
  "promise_finally before after =
     (if promise before = Pending \<and> promise after \<noteq> Pending then popupRedirectCleanup after
      else after)"

definition handlePopupRedirect :: "nat \<Rightarrow> attempt" where
  "handlePopupRedirect timeout =
     \<lparr>promise = Pending, listening = True, timer = True,
      calls = [AddEventListener, SetTimeout (timeout * 1000)]\<rparr>"

text \<open>
  One task of the event loop: a message reaches the listener while it is registered, the
  timer fires once.
\<close>

fun deliver :: "env \<Rightarrow> string \<Rightarrow> nat \<Rightarrow> attempt \<Rightarrow> event \<Rightarrow> attempt" where
  "deliver e OAuthState timeout a (Message d src) =
     (if listening a then promise_finally a (popupRedirectHandler e OAuthState d src a) else a)"
| "deliver e OAuthState timeout a TimerFires =
     (if timer a then promise_finally a (popupTimeoutHandler timeout (a\<lparr>timer := False\<rparr>)) else a)"

definition run_events :: "env \<Rightarrow> string \<Rightarrow> nat \<Rightarrow> attempt \<Rightarrow> event list \<Rightarrow> attempt" where
  "run_events e OAuthState timeout a es = foldl (deliver e OAuthState timeout) a es"

definition OAuthPopupRedirect ::
  "env \<Rightarrow> string \<Rightarrow> string \<Rightarrow> nat \<Rightarrow> world \<Rightarrow> string option outcome \<times> world" where
  "OAuthPopupRedirect e OAuthState OAuthURL timeout w =
     (let w1 = called WindowOpen w in
      if \<not> window_open e then
        (Rejected (Error ''Failed to create popup for authentication!'' None), w1)
      else
        (let a0 = handlePopupRedirect timeout;
             a1 = a0\<lparr>calls := calls a0 @ [SetPopupLocation OAuthURL, PopupFocus]\<rparr>;
             a2 = run_events e OAuthState timeout a1 (events e)
         in (promise a2, w1\<lparr>trace := trace w1 @ calls a2\<rparr>)))"

section \<open>The navigation channel\<close>

text \<open>\<open>${this.#appId}\<close> in a template literal.\<close>

definition appId_text :: "config \<Rightarrow> string" where
  "appId_text c = (case appId c of None \<Rightarrow> ''null'' | Some a \<Rightarrow> a)"

text \<open>
  The handler runs inside the async \<open>#OAuthGetCode\<close>: a throw of the redirect handler is
  a rejection of that function's promise.
\<close>

definition navigationRedirectHandler ::
  "config \<Rightarrow> env \<Rightarrow> url \<Rightarrow> world \<Rightarrow> string option outcome \<times> world" where
  "navigationRedirectHandler c e redirectURL w =
     (let OAuthState = map_of (sessionStorage w) (''OAuthState-'' @ appId_text c);
          CodeVerifier = map_of (sessionStorage w) (''CodeVerifier-'' @ appId_text c);
          w1 = w\<lparr>codeVerifier := CodeVerifier\<rparr>
      in case OAuthRedirectHandler e OAuthState redirectURL of
           Resolve code \<Rightarrow> (Fulfilled code, w1)
         | Reject r \<Rightarrow> (Rejected r, w1)
         | Throw r \<Rightarrow> (Rejected r, w1))"

text \<open>
  \<open>sessionStorage.setItem\<close>, and the fresh attempt of the navigation channel:
  \<open>window.location.replace\<close> is recorded as a call, the page being left after it.
\<close>

definition setItem :: "string \<Rightarrow> string \<Rightarrow> world \<Rightarrow> world" where
  "setItem k v w = w\<lparr>sessionStorage := AList.update k v (sessionStorage w)\<rparr>"

definition OAuthNavigationRedirect ::
  "config \<Rightarrow> string \<Rightarrow> string \<Rightarrow> world \<Rightarrow> string option \<times> world" where
  "OAuthNavigationRedirect c OAuthState OAuthURL w =
     (let w1 = setItem (''OAuthState-'' @ appId_text c) OAuthState w;
          w2 = setItem (''CodeVerifier-'' @ appId_text c)
                 (case codeVerifier w1 of None \<Rightarrow> ''undefined'' | Some v \<Rightarrow> v) w1;
          w3 = called (LocationReplace OAuthURL) w2
      in (None, w3))"

section \<open>Code acquisition, code exchange and the orchestrator\<close>

definition OAuthGetCode ::
  "config \<Rightarrow> env \<Rightarrow> nat \<Rightarrow> bool \<Rightarrow> bool \<Rightarrow> world \<Rightarrow> string option outcome \<times> world" where
  "OAuthGetCode c e timeout offlineToken popupRedirect w =
     (let currentURL = location w in
      if has currentURL ''code'' \<and> has currentURL ''state'' then
        navigationRedirectHandler c e currentURL w
      else
        (let state = uuid_state e;
             tokenType = (if offlineToken then ''offline'' else ''online'');
             w1 = called (GetAuthenticationUrl (redirectURI c) state (appId c) tokenType) w
         in case authUrl_response e of
              Inl r \<Rightarrow> (Rejected r, w1)
            | Inr (OAuthURL, verifier) \<Rightarrow>
                (let w2 = w1\<lparr>codeVerifier := Some verifier\<rparr> in
                 if popupRedirect then OAuthPopupRedirect e state OAuthURL timeout w2
                 else (case OAuthNavigationRedirect c state OAuthURL w2 of
                         (code, w3) \<Rightarrow> (Fulfilled code, w3)))))"

definition OAuthGetTokenInfo ::
  "config \<Rightarrow> env \<Rightarrow> string option \<Rightarrow> world \<Rightarrow> TokenInfo outcome \<times> world" where
  "OAuthGetTokenInfo c e OAuthCode w =
     (let w1 = called (GetAccessTokenFromCode (redirectURI c) OAuthCode) w in
      case exchange_response e of
        Inl r \<Rightarrow> (Rejected r, w1)
      | Inr tokenInfo \<Rightarrow> (Fulfilled tokenInfo, w1))"

definition CHUNK_SIZE :: nat where
  "CHUNK_SIZE = 12 * 1024 * 1024"

definition FILE_SIZE_LIMIT :: nat where
  "FILE_SIZE_LIMIT = 150 * 1024 * 1024"

definition OAUTH_TIMEOUT :: nat where
  "OAUTH_TIMEOUT = 120"

text \<open>\<open>x ??= d\<close>: the default replaces \<open>null\<close> only.\<close>

definition nullish :: "'a option \<Rightarrow> 'a \<Rightarrow> 'a" where
  "nullish x d = (case x of None \<Rightarrow> d | Some v \<Rightarrow> v)"

definition OAuth ::
  "config \<Rightarrow> env \<Rightarrow> nat option \<Rightarrow> bool option \<Rightarrow> bool option \<Rightarrow> world \<Rightarrow> unit outcome \<times> world"
  where
  "OAuth c e timeout offlineToken popupRedirect w =
     (case OAuthCheckToken e w of
        (Fulfilled True, w1) \<Rightarrow> (Fulfilled (), w1)
      | (Rejected r, w1) \<Rightarrow> (Rejected r, w1)
      | (Pending, w1) \<Rightarrow> (Pending, w1)
      | (Fulfilled False, w1) \<Rightarrow>
          (let timeout' = nullish timeout OAUTH_TIMEOUT;
               offlineToken' = nullish offlineToken (useOfflineToken c);
               popupRedirect' = nullish popupRedirect (usePopupRedirect c)
           in case OAuthGetCode c e timeout' offlineToken' popupRedirect' w1 of
                (Rejected r, w2) \<Rightarrow> (Rejected (catchCallback ''Error fetching OAuth Code.'' r), w2)
              | (Pending, w2) \<Rightarrow> (Pending, w2)
              | (Fulfilled OAuthCode, w2) \<Rightarrow>
                  if \<not> truthy OAuthCode \<and> \<not> popupRedirect' then (Fulfilled (), w2)
                  else
                    (case OAuthGetTokenInfo c e OAuthCode w2 of
                       (Rejected r, w3) \<Rightarrow>
                         (Rejected (catchCallback
                            ''Error converting the OAuth Code to an OAuth Token.'' r), w3)
                     | (Pending, w3) \<Rightarrow> (Pending, w3)
                     | (Fulfilled tokenInfo, w3) \<Rightarrow>
                         (let w4 = w3\<lparr>accessToken := Some (access_token tokenInfo)\<rparr> in
                          if offlineToken' then
                            (let w5 = w4\<lparr>refreshToken := refresh_token tokenInfo\<rparr>;
                                 w6 = w5\<lparr>accessTokenExpiresAt :=
                                          Some (now e + expires_in tokenInfo)\<rparr>;
                                 w7 = saveToken (refresh_token tokenInfo) w6
                             in (Fulfilled (), w7))
                          else (Fulfilled (), w4)))))"

section \<open>Upload\<close>

definition uploadSmallFile :: "env \<Rightarrow> File \<Rightarrow> string \<Rightarrow> world \<Rightarrow> string outcome \<times> world" where
  "uploadSmallFile e file dir w =
     (let dir' = (if dir = [] \<or> last dir \<noteq> CHR ''/'' then dir @ ''/'' else dir);
          w1 = called (FilesUpload (dir' @ file_name file)) w
      in case filesUpload_response e of
           Inl r \<Rightarrow> (Rejected r, w1)
         | Inr result \<Rightarrow> (Fulfilled result, w1))"

text \<open>
  \<open>Math.ceil(file.size / DropboxCloud.CHUNK_SIZE)\<close>. The division is read over the
  reals; double-precision division gives the same ceiling for every size below \<open>2^52\<close>.
\<close>

definition chunk_count :: "nat \<Rightarrow> nat" where
  "chunk_count n = nat \<lceil>real n / real CHUNK_SIZE\<rceil>"

text \<open>\<open>file.slice(start, stop)\<close>: the byte range it covers, cut at the end of the file.\<close>

definition slice :: "File \<Rightarrow> nat \<Rightarrow> nat \<Rightarrow> nat \<times> nat" where
  "slice file start stop = (min start (file_size file), min stop (file_size file))"

text \<open>
  The \<open>for ... in\<close> loop over the chunk indices, in increasing order; each append is
  awaited, and a rejected append ends the loop.
\<close>

fun append_chunks ::
  "env \<Rightarrow> string \<Rightarrow> (nat \<times> nat) list \<Rightarrow> nat list \<Rightarrow> world \<Rightarrow> reason option \<times> world" where
  "append_chunks e uploadSession fileChunks [] w = (None, w)"
| "append_chunks e uploadSession fileChunks (chunkIdx # rest) w =
     (let offset = chunkIdx * CHUNK_SIZE;
          w1 = called (FilesUploadSessionAppendV2 uploadSession offset (fileChunks ! chunkIdx)) w
      in case sessionAppend_response e chunkIdx of
           Some r \<Rightarrow> (Some r, w1)
         | None \<Rightarrow> append_chunks e uploadSession fileChunks rest w1)"

definition uploadLargeFile :: "env \<Rightarrow> File \<Rightarrow> world \<Rightarrow> string outcome \<times> world" where
  "uploadLargeFile e file w =
     (let fileChunks =
            map (\<lambda>chunkIdx. slice file (chunkIdx * CHUNK_SIZE) ((chunkIdx + 1) * CHUNK_SIZE))
              [0 ..< chunk_count (file_size file)];
          w1 = called FilesUploadSessionStart w
      in case sessionStart_response e of
           Inl r \<Rightarrow> (Rejected r, w1)
         | Inr uploadSession \<Rightarrow>
             (case append_chunks e uploadSession fileChunks [0 ..< length fileChunks] w1 of
                (Some r, w2) \<Rightarrow> (Rejected r, w2)
              | (None, w2) \<Rightarrow>
                  (let w3 = called (FilesUploadSessionFinish uploadSession (file_size file)
                                      (''/'' @ file_name file)) w2
                   in case sessionFinish_response e of
                        Inl r \<Rightarrow> (Rejected r, w3)
                      | Inr result \<Rightarrow> (Fulfilled result, w3))))"

text \<open>\<open>${file}\<close> in the error message prints a \<open>File\<close> as \<open>[object File]\<close>.\<close>

definition uploadFile ::
  "config \<Rightarrow> env \<Rightarrow> File \<Rightarrow> nat option \<Rightarrow> world \<Rightarrow> string outcome \<times> world" where
  "uploadFile c e file timeout w =
     (case OAuth c e timeout None None w of
        (Rejected r, w1) \<Rightarrow> (Rejected r, w1)
      | (Pending, w1) \<Rightarrow> (Pending, w1)
      | (Fulfilled _, w1) \<Rightarrow>
          (case (if file_size file < FILE_SIZE_LIMIT then uploadSmallFile e file ''/'' w1
                 else uploadLargeFile e file w1) of
             (Fulfilled result, w2) \<Rightarrow> (Fulfilled result, w2)
           | (Rejected r, w2) \<Rightarrow>
               (Rejected (catchCallback ''Error uploading file [object File].'' r), w2)
           | (Pending, w2) \<Rightarrow> (Pending, w2)))"

section \<open>The earlier revision, \<open>DropboxCloud.esm.js\<close>\<close>

text \<open>
  Its popup functions (\<open>#OAuthRedirectHandler\<close>, \<open>#OAuthTimeoutHandler\<close>,
  \<open>#OAuthRedirectCleanup\<close>, \<open>#OAuthHandleRedirect\<close>) and the popup part of its
  \<open>#OAuthGetCode\<close> are, statement by statement, those of the later revision, with the
  redirect handler written inside the message listener; \<open>OAuthPopupRedirect\<close> stands for
  them. Its \<open>catchCallback\<close> has no case for \<open>DropboxResponseError\<close>.
\<close>

definition catchCallback_esm :: "string \<Rightarrow> reason \<Rightarrow> reason" where
  "catchCallback_esm message reason = Error message (Some reason)"

definition OAuthRefreshedToken :: "env \<Rightarrow> world \<Rightarrow> string option outcome \<times> world" where
  "OAuthRefreshedToken e w =
     (if truthy (refreshToken w) then
        (case checkAndRefreshAccessToken e w of
           (Inr _, w1) \<Rightarrow> (Fulfilled (accessToken w1), w1)
         | (Inl r, w1) \<Rightarrow> (Rejected r, w1))
      else (Fulfilled (accessToken w), w))"

definition OAuthGetCode_esm ::
  "config \<Rightarrow> env \<Rightarrow> nat \<Rightarrow> world \<Rightarrow> string option outcome \<times> world" where
  "OAuthGetCode_esm c e timeout w =
     (let state = uuid_state e;
          w1 = called (GetAuthenticationUrl (redirectURI c) state (appId c) ''offline'') w
      in case authUrl_response e of
           Inl r \<Rightarrow> (Rejected r, w1)
         | Inr (authUrl, verifier) \<Rightarrow>
             OAuthPopupRedirect e state authUrl timeout (w1\<lparr>codeVerifier := Some verifier\<rparr>))"

definition OAuth_esm :: "config \<Rightarrow> env \<Rightarrow> nat option \<Rightarrow> world \<Rightarrow> unit outcome \<times> world" where
  "OAuth_esm c e timeout w =
     (case OAuthRefreshedToken e w of
        (Rejected r, w1) \<Rightarrow> (Rejected r, w1)
      | (Pending, w1) \<Rightarrow> (Pending, w1)
      | (Fulfilled token, w1) \<Rightarrow>
          if truthy token then (Fulfilled (), w1)
          else
            (case OAuthGetCode_esm c e (nullish timeout OAUTH_TIMEOUT) w1 of
               (Rejected r, w2) \<Rightarrow>
                 (Rejected (catchCallback_esm ''Error fetching OAuth code.'' r), w2)
             | (Pending, w2) \<Rightarrow> (Pending, w2)
             | (Fulfilled OAuthCode, w2) \<Rightarrow>
                 (case OAuthGetTokenInfo c e OAuthCode w2 of
                    (Rejected r, w3) \<Rightarrow>
                      (Rejected (catchCallback_esm
                         ''Error converting the OAuth code to an OAuth token.'' r), w3)
                  | (Pending, w3) \<Rightarrow> (Pending, w3)
                  | (Fulfilled tokenInfo, w3) \<Rightarrow>
                      (let w4 = w3\<lparr>accessToken := Some (access_token tokenInfo)\<rparr>;
                           w5 = w4\<lparr>refreshToken := refresh_token tokenInfo\<rparr>;
                           w6 = w5\<lparr>accessTokenExpiresAt :=
                                    Some (now e + expires_in tokenInfo)\<rparr>;
                           w7 = saveToken (refresh_token tokenInfo) w6
                       in (Fulfilled (), w7)))))"

section \<open>Predicates on a popup attempt\<close>

text \<open>
  The state of an attempt between two tasks: while the promise is pending the listener is
  registered, the timer is still to fire and no cleanup has run; once it is settled the
  listener is gone and the popup was closed and the listener removed once each.
\<close>

definition attempt_inv :: "attempt \<Rightarrow> bool" where
  "attempt_inv a =
     (if promise a = Pending
      then listening a \<and> timer a \<and>
           count_list (calls a) PopupClose = 0 \<and> count_list (calls a) RemoveEventListener = 0
      else \<not> listening a \<and>
           count_list (calls a) PopupClose = 1 \<and> count_list (calls a) RemoveEventListener = 1)"

text \<open>
  The three terminal events: a resolution with a code, the rejection for a mismatched
  state, the rejection for the timeout.
\<close>

definition terminal :: "nat \<Rightarrow> string option outcome \<Rightarrow> bool" where
  "terminal timeout p =
     ((\<exists>code. p = Fulfilled code)
      \<or> (\<exists>q. p = Rejected (Error
            (''Mismatched state on redirect, something has gone wrong. The search string was ''
               @ [CHR 0x22] @ q @ [CHR 0x22] @ ''.'') None))
      \<or> p = Rejected (Error (''OAuth timed out after '' @ digits timeout @ '' seconds.'') None))"

section \<open>Concrete inputs\<close>

text \<open>A signed-in object with a stored refresh token, on a page without query.\<close>

definition world0 :: world where
  "world0 =
     \<lparr>refreshToken = Some ''rt'', accessToken = Some ''at'', accessTokenExpiresAt = Some 1000,
      codeVerifier = None, tokenStorage = Some (Some ''rt''), sessionStorage = [],
      location = \<lparr>search = [], searchParams = []\<rparr>, trace = []\<rparr>"

text \<open>The JSON text \<open>{"state":"tok"}\<close>.\<close>

definition state_text :: "string \<Rightarrow> string" where
  "state_text tok =
     ''{'' @ [CHR 0x22] @ ''state'' @ [CHR 0x22] @ '':'' @ [CHR 0x22] @ tok @ [CHR 0x22] @ ''}''"

text \<open>\<open>JSON.parse\<close> on the three texts the examples use.\<close>

definition parse0 :: "string \<Rightarrow> json option" where
  "parse0 s =
     (if s = state_text ''s-1'' then Some (JObj [(''state'', JStr ''s-1'')])
      else if s = state_text ''evil'' then Some (JObj [(''state'', JStr ''evil'')])
      else if s = ''{}'' then Some (JObj [])
      else None)"

text \<open>
  An outside where every endpoint answers well: no renewal is needed, the probe is echoed,
  the popup opens and no event arrives.
\<close>

definition env0 :: env where
  "env0 =
     \<lparr>refresh_response = RefreshOk None, uuid_query = ''q-1'', uuid_state = ''s-1'',
      checkUser_response = (\<lambda>q. Inr q), json_parse = parse0,
      authUrl_response = Inr (''https://auth.example/authorize'', ''verifier-1''),
      window_open = True, events = [],
      exchange_response =
        Inr \<lparr>access_token = ''AT'', refresh_token = Some ''RT'', expires_in = 14400\<rparr>,
      now = 1700000000000,
      filesUpload_response = Inr ''uploaded'', sessionStart_response = Inr ''sid-1'',
      sessionAppend_response = (\<lambda>i. None), sessionFinish_response = Inr ''committed''\<rparr>"

definition config0 :: config where
  "config0 =
     \<lparr>redirectURI = ''https://app.example/redirect'', appId = Some ''app'',
      useOfflineToken = True, usePopupRedirect = True\<rparr>"

text \<open>The redirect URL \<open>?code=ABC&state={"state":"tok"}\<close>.\<close>

definition redirect_url :: "string \<Rightarrow> url" where
  "redirect_url tok =
     \<lparr>search = ''?code=ABC&state='' @ state_text tok,
      searchParams = [(''code'', ''ABC''), (''state'', state_text tok)]\<rparr>"

text \<open>
  A page load that is the return of a navigation redirect: nobody is signed in, and the
  session storage holds the state token and the verifier of the pending attempt.
\<close>

definition world_return :: world where
  "world_return =
     \<lparr>refreshToken = None, accessToken = None, accessTokenExpiresAt = None,
      codeVerifier = None, tokenStorage = Some None,
      sessionStorage = [(''OAuthState-app'', ''s-1''), (''CodeVerifier-app'', ''verifier-1'')],
      location = redirect_url ''s-1'', trace = []\<rparr>"

section \<open>The refresh engine\<close>

text \<open>
  C1. Whenever a refresh token is held (the test of the code: the token is truthy) and the
  refresh endpoint rejects with a \<open>DropboxResponseError\<close> whose error is
  \<open>invalid_grant\<close>, \<open>#OAuthRefreshToken\<close> fulfils with \<open>false\<close> (no error reaches the
  caller), the refresh token in memory is cleared, and an injected token storage is
  called with \<open>saveToken(null)\<close> and holds the absent value afterwards.
\<close>

theorem OAuthRefreshToken_invalid_grant:
  assumes "truthy (refreshToken w)"
    and "refresh_response e = RefreshFailed r"
    and "invalid_grant r"
  shows "fst (OAuthRefreshToken e w) = Fulfilled False
       \<and> refreshToken (snd (OAuthRefreshToken e w)) = None
       \<and> tokenStorage (snd (OAuthRefreshToken e w)) = map_option (\<lambda>t. None) (tokenStorage w)
       \<and> trace (snd (OAuthRefreshToken e w)) =
           trace w @ [CheckAndRefreshAccessToken,
                      ConsoleDebug (Error (''Error refreshing token: '' @ error_description r
                               @ ''. Removing refresh token.'') (Some r))]
             @ (case tokenStorage w of None \<Rightarrow> [] | Some t \<Rightarrow> [SaveToken None])"
  using assms
  by (simp add: OAuthRefreshToken_def checkAndRefreshAccessToken_def saveToken_def called_def
      split: option.splits)

theorem OAuthRefreshToken_invalid_grant_witness:
  "truthy (refreshToken world0)
   \<and> invalid_grant (DropboxResponseError ''invalid_grant'' ''expired'')
   \<and> fst (OAuthRefreshToken (env0\<lparr>refresh_response :=
          RefreshFailed (DropboxResponseError ''invalid_grant'' ''expired'')\<rparr>) world0)
       = Fulfilled False
   \<and> refreshToken (snd (OAuthRefreshToken (env0\<lparr>refresh_response :=
          RefreshFailed (DropboxResponseError ''invalid_grant'' ''expired'')\<rparr>) world0)) = None
   \<and> tokenStorage (snd (OAuthRefreshToken (env0\<lparr>refresh_response :=
          RefreshFailed (DropboxResponseError ''invalid_grant'' ''expired'')\<rparr>) world0)) = Some None
   \<and> trace (snd (OAuthRefreshToken (env0\<lparr>refresh_response :=
          RefreshFailed (DropboxResponseError ''invalid_grant'' ''expired'')\<rparr>) world0))
       = [CheckAndRefreshAccessToken,
          ConsoleDebug (Error ''Error refreshing token: expired. Removing refresh token.''
            (Some (DropboxResponseError ''invalid_grant'' ''expired''))),
          SaveToken None]"
proof -
  let ?r = "DropboxResponseError ''invalid_grant'' ''expired''"
  let ?e = "env0\<lparr>refresh_response := RefreshFailed ?r\<rparr>"
  have a: "truthy (refreshToken world0)" by (simp add: truthy_def world0_def)
  have b: "refresh_response ?e = RefreshFailed ?r" by simp
  have c: "invalid_grant ?r" by (simp add: invalid_grant_def)
  from OAuthRefreshToken_invalid_grant [OF a b c] a c show ?thesis
    by (simp add: world0_def)
qed

text \<open>
  C2. Whenever a refresh token is held and the refresh endpoint rejects with anything but
  \<open>invalid_grant\<close>, \<open>#OAuthRefreshToken\<close> rejects with the error of
  \<open>catchCallback('Error refreshing token!')\<close>: its cause is the original reason and its
  message starts with that fixed text. The refresh token in memory and the token storage
  are as before, and no call but the refresh itself was issued.
\<close>

theorem OAuthRefreshToken_other_rejection:
  assumes "truthy (refreshToken w)"
    and "refresh_response e = RefreshFailed r"
    and "\<not> invalid_grant r"
  shows "fst (OAuthRefreshToken e w) = Rejected (catchCallback ''Error refreshing token!'' r)
       \<and> err_cause (catchCallback ''Error refreshing token!'' r) = Some r
       \<and> prefix ''Error refreshing token!'' (err_message (catchCallback ''Error refreshing token!'' r))
       \<and> refreshToken (snd (OAuthRefreshToken e w)) = refreshToken w
       \<and> tokenStorage (snd (OAuthRefreshToken e w)) = tokenStorage w
       \<and> trace (snd (OAuthRefreshToken e w)) = trace w @ [CheckAndRefreshAccessToken]"
  using assms
  by (cases r) (simp_all add: OAuthRefreshToken_def checkAndRefreshAccessToken_def called_def)

theorem OAuthRefreshToken_other_rejection_witness:
  "truthy (refreshToken world0)
   \<and> \<not> invalid_grant (Error ''Failed to fetch'' None)
   \<and> fst (OAuthRefreshToken (env0\<lparr>refresh_response :=
          RefreshFailed (Error ''Failed to fetch'' None)\<rparr>) world0)
       = Rejected (Error ''Error refreshing token!'' (Some (Error ''Failed to fetch'' None)))
   \<and> refreshToken (snd (OAuthRefreshToken (env0\<lparr>refresh_response :=
          RefreshFailed (Error ''Failed to fetch'' None)\<rparr>) world0)) = Some ''rt''
   \<and> tokenStorage (snd (OAuthRefreshToken (env0\<lparr>refresh_response :=
          RefreshFailed (Error ''Failed to fetch'' None)\<rparr>) world0)) = Some (Some ''rt'')
   \<and> trace (snd (OAuthRefreshToken (env0\<lparr>refresh_response :=
          RefreshFailed (Error ''Failed to fetch'' None)\<rparr>) world0))
       = [CheckAndRefreshAccessToken]"
proof -
  let ?r = "Error ''Failed to fetch'' None"
  let ?e = "env0\<lparr>refresh_response := RefreshFailed ?r\<rparr>"
  have a: "truthy (refreshToken world0)" by (simp add: truthy_def world0_def)
  have b: "refresh_response ?e = RefreshFailed ?r" by simp
  have c: "\<not> invalid_grant ?r" by (simp add: invalid_grant_def)
  from OAuthRefreshToken_other_rejection [OF a b c] a c show ?thesis
    by (simp add: world0_def)
qed

section \<open>Case analyses of the refresh and the liveness check\<close>

lemma OAuthRefreshToken_cases:
  "OAuthRefreshToken e w =
     (if truthy (refreshToken w) then
        (case refresh_response e of
           RefreshOk None \<Rightarrow> (Fulfilled True, called CheckAndRefreshAccessToken w)
         | RefreshOk (Some (t, x)) \<Rightarrow>
             (Fulfilled True,
              (called CheckAndRefreshAccessToken w)\<lparr>accessToken := Some t, accessTokenExpiresAt := Some x\<rparr>)
         | RefreshFailed r \<Rightarrow>
             if invalid_grant r then
               (Fulfilled False,
                saveToken None
                  ((called (ConsoleDebug (Error (''Error refreshing token: '' @ error_description r
                               @ ''. Removing refresh token.'') (Some r)))
                     (called CheckAndRefreshAccessToken w))\<lparr>refreshToken := None\<rparr>))
             else (Rejected (catchCallback ''Error refreshing token!'' r),
                   called CheckAndRefreshAccessToken w))
      else (Fulfilled True, w))"
  by (simp add: OAuthRefreshToken_def checkAndRefreshAccessToken_def Let_def
      split: refresh_result.splits option.splits prod.splits)

lemma OAuthCheckToken_cases:
  "OAuthCheckToken e w =
     (case fst (OAuthRefreshToken e w) of
        Fulfilled b \<Rightarrow>
          if b then (Fulfilled (checkUser_response e (uuid_query e) = Inr (uuid_query e)),
                     called (CheckUser (uuid_query e)) (snd (OAuthRefreshToken e w)))
          else (Fulfilled False, snd (OAuthRefreshToken e w))
      | Rejected r \<Rightarrow> (Rejected r, snd (OAuthRefreshToken e w))
      | Pending \<Rightarrow> (Pending, snd (OAuthRefreshToken e w)))"
proof (cases "OAuthRefreshToken e w")
  case (Pair o1 w1)
  then show ?thesis
    by (cases o1; cases "checkUser_response e (uuid_query e)")
       (auto simp add: OAuthCheckToken_def Let_def)
qed

lemma OAuthRefreshToken_not_Pending: "fst (OAuthRefreshToken e w) \<noteq> Pending"
  by (simp add: OAuthRefreshToken_cases split: refresh_result.splits option.splits prod.splits)

lemma OAuthRefreshToken_True_world:
  assumes "fst (OAuthRefreshToken e w) = Fulfilled True"
  shows "snd (OAuthRefreshToken e w) =
     (if truthy (refreshToken w) then
        (case refresh_response e of
           RefreshOk (Some (t, x)) \<Rightarrow>
             (called CheckAndRefreshAccessToken w)\<lparr>accessToken := Some t, accessTokenExpiresAt := Some x\<rparr>
         | _ \<Rightarrow> called CheckAndRefreshAccessToken w)
      else w)"
  using assms
  by (simp add: OAuthRefreshToken_cases split: refresh_result.splits option.splits prod.splits if_splits)

lemma OAuthCheckToken_True:
  assumes "fst (OAuthCheckToken e w) = Fulfilled True"
  shows "fst (OAuthRefreshToken e w) = Fulfilled True
       \<and> snd (OAuthCheckToken e w) = called (CheckUser (uuid_query e)) (snd (OAuthRefreshToken e w))"
  using assms
  by (simp add: OAuthCheckToken_cases split: outcome.splits if_splits)

section \<open>The liveness check\<close>

text \<open>
  C9, as stated, fails: with a refresh token held and a refresh that fails for another
  reason than \<open>invalid_grant\<close> (here a network failure), \<open>#OAuthCheckToken\<close> rejects
  with the fatal error of the refresh step.
\<close>

theorem OAuthCheckToken_never_throws_counterexample:
  "fst (OAuthCheckToken (env0\<lparr>refresh_response := RefreshFailed (Error ''Failed to fetch'' None)\<rparr>)
          world0)
   = Rejected (Error ''Error refreshing token!'' (Some (Error ''Failed to fetch'' None)))"
  by (simp add: OAuthCheckToken_def OAuthRefreshToken_def checkAndRefreshAccessToken_def
      env0_def world0_def truthy_def invalid_grant_def called_def)

text \<open>
  C9, amended. \<open>#OAuthCheckToken\<close> always settles, and it rejects exactly when its
  refresh step rejects (a refresh token is held and the endpoint fails otherwise than by
  \<open>invalid_grant\<close>), with that step's error. When the refresh step gives \<open>true\<close>, the
  check fulfils with whether the probe came back echoed: a failed probe and a different
  echo both give \<open>false\<close>. When the refresh step gives \<open>false\<close>, the check fulfils with
  \<open>false\<close> and issues no call of its own, so no probe.
\<close>

theorem OAuthCheckToken_probe_swallowed:
  "fst (OAuthCheckToken e w) \<noteq> Pending
   \<and> (\<forall>x. fst (OAuthCheckToken e w) = Rejected x \<longleftrightarrow>
        (\<exists>r. truthy (refreshToken w) \<and> refresh_response e = RefreshFailed r \<and>
             \<not> invalid_grant r \<and> x = catchCallback ''Error refreshing token!'' r))
   \<and> (fst (OAuthRefreshToken e w) = Fulfilled True \<longrightarrow>
        OAuthCheckToken e w =
          (Fulfilled (checkUser_response e (uuid_query e) = Inr (uuid_query e)),
           called (CheckUser (uuid_query e)) (snd (OAuthRefreshToken e w))))
   \<and> (fst (OAuthRefreshToken e w) = Fulfilled False \<longrightarrow>
        OAuthCheckToken e w = (Fulfilled False, snd (OAuthRefreshToken e w)))"
proof -
  have 1: "fst (OAuthCheckToken e w) \<noteq> Pending"
    using OAuthRefreshToken_not_Pending [of e w]
    by (simp add: OAuthCheckToken_cases split: outcome.splits)
  have 2: "fst (OAuthCheckToken e w) = Rejected x \<longleftrightarrow> fst (OAuthRefreshToken e w) = Rejected x" for x
    by (simp add: OAuthCheckToken_cases split: outcome.splits)
  have 3: "fst (OAuthRefreshToken e w) = Rejected x \<longleftrightarrow>
        (\<exists>r. truthy (refreshToken w) \<and> refresh_response e = RefreshFailed r \<and>
             \<not> invalid_grant r \<and> x = catchCallback ''Error refreshing token!'' r)" for x
    by (auto simp add: OAuthRefreshToken_cases split: refresh_result.splits option.splits prod.splits)
  have 4: "fst (OAuthRefreshToken e w) = Fulfilled True \<longrightarrow>
        OAuthCheckToken e w =
          (Fulfilled (checkUser_response e (uuid_query e) = Inr (uuid_query e)),
           called (CheckUser (uuid_query e)) (snd (OAuthRefreshToken e w)))"
    by (simp add: OAuthCheckToken_cases)
  have 5: "fst (OAuthRefreshToken e w) = Fulfilled False \<longrightarrow>
        OAuthCheckToken e w = (Fulfilled False, snd (OAuthRefreshToken e w))"
    by (simp add: OAuthCheckToken_cases)
  from 1 2 3 4 5 show ?thesis by simp
qed

theorem OAuthCheckToken_probe_swallowed_witness:
  "fst (OAuthRefreshToken (env0\<lparr>checkUser_response := (\<lambda>q. Inl (Error ''Failed to fetch'' None))\<rparr>) world0)
     = Fulfilled True
   \<and> fst (OAuthCheckToken (env0\<lparr>checkUser_response := (\<lambda>q. Inl (Error ''Failed to fetch'' None))\<rparr>) world0)
     = Fulfilled False
   \<and> fst (OAuthRefreshToken (env0\<lparr>refresh_response :=
          RefreshFailed (DropboxResponseError ''invalid_grant'' ''expired'')\<rparr>) world0)
     = Fulfilled False
   \<and> fst (OAuthCheckToken (env0\<lparr>refresh_response :=
          RefreshFailed (DropboxResponseError ''invalid_grant'' ''expired'')\<rparr>) world0)
     = Fulfilled False
   \<and> CheckUser ''q-1'' \<notin> set (trace (snd (OAuthCheckToken (env0\<lparr>refresh_response :=
          RefreshFailed (DropboxResponseError ''invalid_grant'' ''expired'')\<rparr>) world0)))"
proof -
  let ?e1 = "env0\<lparr>checkUser_response := (\<lambda>q. Inl (Error ''Failed to fetch'' None))\<rparr>"
  let ?e2 = "env0\<lparr>refresh_response := RefreshFailed (DropboxResponseError ''invalid_grant'' ''expired'')\<rparr>"
  have a: "fst (OAuthRefreshToken ?e1 world0) = Fulfilled True"
    by (simp add: OAuthRefreshToken_def checkAndRefreshAccessToken_def env0_def world0_def
        truthy_def called_def)
  have b: "fst (OAuthRefreshToken ?e2 world0) = Fulfilled False"
    by (simp add: OAuthRefreshToken_def checkAndRefreshAccessToken_def env0_def world0_def
        truthy_def called_def invalid_grant_def saveToken_def)
  have c: "trace (snd (OAuthRefreshToken ?e2 world0)) =
      [CheckAndRefreshAccessToken,
       ConsoleDebug (Error ''Error refreshing token: expired. Removing refresh token.''
            (Some (DropboxResponseError ''invalid_grant'' ''expired''))),
       SaveToken None]"
    by (simp add: OAuthRefreshToken_def checkAndRefreshAccessToken_def env0_def world0_def
        truthy_def called_def invalid_grant_def saveToken_def)
  from OAuthCheckToken_probe_swallowed [of ?e1 world0]
       OAuthCheckToken_probe_swallowed [of ?e2 world0] a b c
  show ?thesis by simp
qed

section \<open>The orchestrator when already authenticated\<close>

text \<open>
  C5, as stated, fails: the liveness check accepts the credential and \<open>OAuth\<close> returns,
  yet the access token differs from the one held before, because the refresh step of the
  check renewed it.
\<close>

theorem OAuth_credential_unchanged_counterexample:
  "fst (OAuthCheckToken (env0\<lparr>refresh_response := RefreshOk (Some (''at-2'', 9000))\<rparr>) world0)
     = Fulfilled True
   \<and> fst (OAuth config0 (env0\<lparr>refresh_response := RefreshOk (Some (''at-2'', 9000))\<rparr>)
            None None None world0) = Fulfilled ()
   \<and> accessToken world0 = Some ''at''
   \<and> accessToken (snd (OAuth config0 (env0\<lparr>refresh_response := RefreshOk (Some (''at-2'', 9000))\<rparr>)
            None None None world0)) = Some ''at-2''"
  by (simp add: OAuth_def OAuthCheckToken_def OAuthRefreshToken_def checkAndRefreshAccessToken_def
      env0_def world0_def truthy_def called_def)

text \<open>
  C5, amended. When the liveness check accepts the credential, \<open>OAuth\<close> fulfils at once
  in the state the check left: the only calls issued are the refresh (when a refresh token
  is held) and the probe, so no redirect channel is opened and the code-exchange endpoint
  is not called. The refresh token, the token storage, the PKCE verifier, the session
  storage and the page URL are unchanged; the access token and its expiry are unchanged
  unless the refresh step renewed them.
\<close>

theorem OAuth_authenticated:
  assumes "fst (OAuthCheckToken e w) = Fulfilled True"
  shows "OAuth c e timeout offlineToken popupRedirect w = (Fulfilled (), snd (OAuthCheckToken e w))
       \<and> trace (snd (OAuthCheckToken e w)) =
           trace w @ (if truthy (refreshToken w) then [CheckAndRefreshAccessToken] else [])
             @ [CheckUser (uuid_query e)]
       \<and> refreshToken (snd (OAuthCheckToken e w)) = refreshToken w
       \<and> tokenStorage (snd (OAuthCheckToken e w)) = tokenStorage w
       \<and> codeVerifier (snd (OAuthCheckToken e w)) = codeVerifier w
       \<and> sessionStorage (snd (OAuthCheckToken e w)) = sessionStorage w
       \<and> location (snd (OAuthCheckToken e w)) = location w
       \<and> (accessToken (snd (OAuthCheckToken e w)), accessTokenExpiresAt (snd (OAuthCheckToken e w))) =
           (if truthy (refreshToken w) then
              (case refresh_response e of
                 RefreshOk (Some (t, x)) \<Rightarrow> (Some t, Some x)
               | _ \<Rightarrow> (accessToken w, accessTokenExpiresAt w))
            else (accessToken w, accessTokenExpiresAt w))"
proof -
  from assms have ret: "OAuth c e timeout offlineToken popupRedirect w = (Fulfilled (), snd (OAuthCheckToken e w))"
    by (cases "OAuthCheckToken e w") (simp add: OAuth_def)
  from OAuthCheckToken_True [OF assms]
  have r: "fst (OAuthRefreshToken e w) = Fulfilled True"
    and s: "snd (OAuthCheckToken e w) = called (CheckUser (uuid_query e)) (snd (OAuthRefreshToken e w))"
    by simp_all
  note w1 = OAuthRefreshToken_True_world [OF r]
  have "trace (snd (OAuthCheckToken e w)) =
           trace w @ (if truthy (refreshToken w) then [CheckAndRefreshAccessToken] else [])
             @ [CheckUser (uuid_query e)]"
    unfolding s w1 by (simp add: called_def split: refresh_result.splits option.splits)
  moreover have "refreshToken (snd (OAuthCheckToken e w)) = refreshToken w"
    unfolding s w1 by (simp add: called_def split: refresh_result.splits option.splits)
  moreover have "tokenStorage (snd (OAuthCheckToken e w)) = tokenStorage w"
    unfolding s w1 by (simp add: called_def split: refresh_result.splits option.splits)
  moreover have "codeVerifier (snd (OAuthCheckToken e w)) = codeVerifier w"
    unfolding s w1 by (simp add: called_def split: refresh_result.splits option.splits)
  moreover have "sessionStorage (snd (OAuthCheckToken e w)) = sessionStorage w"
    unfolding s w1 by (simp add: called_def split: refresh_result.splits option.splits)
  moreover have "location (snd (OAuthCheckToken e w)) = location w"
    unfolding s w1 by (simp add: called_def split: refresh_result.splits option.splits)
  moreover have "(accessToken (snd (OAuthCheckToken e w)), accessTokenExpiresAt (snd (OAuthCheckToken e w))) =
           (if truthy (refreshToken w) then
              (case refresh_response e of
                 RefreshOk (Some (t, x)) \<Rightarrow> (Some t, Some x)
               | _ \<Rightarrow> (accessToken w, accessTokenExpiresAt w))
            else (accessToken w, accessTokenExpiresAt w))"
    unfolding s w1 by (simp add: called_def split: refresh_result.splits option.splits)
  ultimately show ?thesis using ret by simp
qed

theorem OAuth_authenticated_witness:
  "fst (OAuthCheckToken env0 world0) = Fulfilled True
   \<and> OAuth config0 env0 None None None world0 = (Fulfilled (), snd (OAuthCheckToken env0 world0))
   \<and> trace (snd (OAuth config0 env0 None None None world0))
       = [CheckAndRefreshAccessToken, CheckUser ''q-1'']
   \<and> refreshToken (snd (OAuth config0 env0 None None None world0)) = Some ''rt''
   \<and> tokenStorage (snd (OAuth config0 env0 None None None world0)) = Some (Some ''rt'')
   \<and> accessToken (snd (OAuth config0 env0 None None None world0)) = Some ''at''"
proof -
  have a: "fst (OAuthCheckToken env0 world0) = Fulfilled True"
    by (simp add: OAuthCheckToken_def OAuthRefreshToken_def checkAndRefreshAccessToken_def
        env0_def world0_def truthy_def called_def)
  have r: "refresh_response env0 = RefreshOk None" by (simp add: env0_def)
  have q: "uuid_query env0 = ''q-1''" by (simp add: env0_def)
  have t: "truthy (refreshToken world0)" by (simp add: world0_def truthy_def)
  have w: "trace world0 = []" "refreshToken world0 = Some ''rt''"
    "tokenStorage world0 = Some (Some ''rt'')" "accessToken world0 = Some ''at''"
    by (simp_all add: world0_def)
  from OAuth_authenticated [OF a, of config0 None None None] a r q t w
  show ?thesis by simp
qed

section \<open>The redirect handler and the state token\<close>

lemma handler_object:
  "JSON_parse e (get redirectURL ''state'') = Inr (JObj kvs) \<Longrightarrow>
   OAuthRedirectHandler e (Some tok) redirectURL =
     (if map_of kvs ''state'' = Some (JStr tok) then Resolve (get redirectURL ''code'')
      else Reject (Error
          (''Mismatched state on redirect, something has gone wrong. The search string was ''
             @ [CHR 0x22] @ search redirectURL @ [CHR 0x22] @ ''.'') None))"
  by (simp add: OAuthRedirectHandler_def redirectState_def strict_eq_def
      split: option.splits json.splits)

lemma strict_eq_Some:
  "strict_eq (Some tok) v \<longleftrightarrow> v = Some (JStr tok)"
  by (auto simp add: strict_eq_def split: option.splits json.splits)

lemma handler_resolve:
  assumes "OAuthRedirectHandler e (Some tok) redirectURL = Resolve code"
  shows "code = get redirectURL ''code'' \<and>
      (\<exists>props. JSON_parse e (get redirectURL ''state'') = Inr (JObj props)
          \<and> map_of props ''state'' = Some (JStr tok))"
proof (cases "JSON_parse e (get redirectURL ''state'')")
  case (Inl r)
  with assms show ?thesis by (simp add: OAuthRedirectHandler_def)
next
  case (Inr stateObj)
  show ?thesis
  proof (cases stateObj)
    case (JObj props)
    with Inr assms show ?thesis
      by (simp add: handler_object split: if_splits)
  qed (use Inr assms in \<open>simp_all add: OAuthRedirectHandler_def redirectState_def strict_eq_Some\<close>)
qed

text \<open>
  C3. For an issued state token \<open>tok\<close> and a redirect whose \<open>state\<close> parameter decodes
  to a JSON object: when the object's \<open>state\<close> property is not the string \<open>tok\<close> (it
  is another value, or absent), \<open>#OAuthRedirectHandler\<close> rejects with the mismatch error
  whose message quotes the raw query string; when it is \<open>tok\<close>, the handler resolves with
  the \<open>code\<close> parameter. Whatever the redirect, the handler resolves only with the
  \<open>code\<close> parameter and only when the decoded state is an object whose \<open>state\<close>
  property is exactly \<open>tok\<close>.
\<close>

theorem OAuthRedirectHandler_state_match:
  "(JSON_parse e (get redirectURL ''state'') = Inr (JObj kvs) \<and> map_of kvs ''state'' \<noteq> Some (JStr tok) \<longrightarrow>
      OAuthRedirectHandler e (Some tok) redirectURL =
        Reject (Error
          (''Mismatched state on redirect, something has gone wrong. The search string was ''
             @ [CHR 0x22] @ search redirectURL @ [CHR 0x22] @ ''.'') None))
   \<and> (JSON_parse e (get redirectURL ''state'') = Inr (JObj kvs) \<and> map_of kvs ''state'' = Some (JStr tok) \<longrightarrow>
      OAuthRedirectHandler e (Some tok) redirectURL = Resolve (get redirectURL ''code''))
   \<and> (OAuthRedirectHandler e (Some tok) redirectURL = Resolve code \<longrightarrow>
      code = get redirectURL ''code'' \<and>
      (\<exists>props. JSON_parse e (get redirectURL ''state'') = Inr (JObj props)
          \<and> map_of props ''state'' = Some (JStr tok)))"
  using handler_object [of e redirectURL kvs tok] handler_resolve [of e tok redirectURL code]
  by simp

theorem OAuthRedirectHandler_state_match_witness:
  "JSON_parse env0 (get (redirect_url ''evil'') ''state'') = Inr (JObj [(''state'', JStr ''evil'')])
   \<and> map_of [(''state'', JStr ''evil'')] ''state'' \<noteq> Some (JStr ''s-1'')
   \<and> OAuthRedirectHandler env0 (Some ''s-1'') (redirect_url ''evil'') =
        Reject (Error
          (''Mismatched state on redirect, something has gone wrong. The search string was ''
             @ [CHR 0x22] @ (''?code=ABC&state='' @ state_text ''evil'') @ [CHR 0x22] @ ''.'') None)
   \<and> JSON_parse env0 (get (redirect_url ''s-1'') ''state'') = Inr (JObj [(''state'', JStr ''s-1'')])
   \<and> OAuthRedirectHandler env0 (Some ''s-1'') (redirect_url ''s-1'') = Resolve (Some ''ABC'')"
proof -
  have a: "JSON_parse env0 (get (redirect_url ''evil'') ''state'') = Inr (JObj [(''state'', JStr ''evil'')])"
    by (simp add: JSON_parse_def get_def redirect_url_def env0_def parse0_def state_text_def)
  have b: "map_of [(''state'', JStr ''evil'')] ''state'' \<noteq> Some (JStr ''s-1'')" by simp
  have c: "JSON_parse env0 (get (redirect_url ''s-1'') ''state'') = Inr (JObj [(''state'', JStr ''s-1'')])"
    by (simp add: JSON_parse_def get_def redirect_url_def env0_def parse0_def state_text_def)
  have d: "map_of [(''state'', JStr ''s-1'')] ''state'' = Some (JStr ''s-1'')" by simp
  have g: "get (redirect_url ''s-1'') ''code'' = Some ''ABC''"
    by (simp add: get_def redirect_url_def)
  have s: "search (redirect_url ''evil'') = ''?code=ABC&state='' @ state_text ''evil''"
    by (simp add: redirect_url_def)
  have r1: "OAuthRedirectHandler env0 (Some ''s-1'') (redirect_url ''evil'') =
        Reject (Error
          (''Mismatched state on redirect, something has gone wrong. The search string was ''
             @ [CHR 0x22] @ search (redirect_url ''evil'') @ [CHR 0x22] @ ''.'') None)"
    using OAuthRedirectHandler_state_match [of env0 "redirect_url ''evil''" "[(''state'', JStr ''evil'')]" "''s-1''"] a b
    by blast
  have r2: "OAuthRedirectHandler env0 (Some ''s-1'') (redirect_url ''s-1'') = Resolve (get (redirect_url ''s-1'') ''code'')"
    using OAuthRedirectHandler_state_match [of env0 "redirect_url ''s-1''" "[(''state'', JStr ''s-1'')]" "''s-1''"] c d
    by blast
  show ?thesis
    using a b c r1 r2 unfolding s g by (intro conjI)
qed

section \<open>The navigation channel on return\<close>

text \<open>
  C8. When the page URL carries \<open>code\<close> and \<open>state\<close>, the session storage holds the
  state token and the verifier under the keys qualified by the app identifier, and the
  state of the URL decodes to an object whose \<open>state\<close> property is the stored token,
  \<open>#OAuthGetCode\<close> fulfils with the URL's \<open>code\<close>; the only change of state is the
  verifier restored into the authorization context, so no call is issued.
\<close>

theorem OAuthGetCode_navigation_return:
  assumes "get (location w) ''code'' = Some code"
    and "get (location w) ''state'' = Some st"
    and "map_of (sessionStorage w) (''OAuthState-'' @ appId_text c) = Some tok"
    and "map_of (sessionStorage w) (''CodeVerifier-'' @ appId_text c) = Some verifier"
    and "json_parse e st = Some (JObj props)"
    and "map_of props ''state'' = Some (JStr tok)"
  shows "OAuthGetCode c e timeout offlineToken popupRedirect w =
           (Fulfilled (Some code), w\<lparr>codeVerifier := Some verifier\<rparr>)"
  using assms
  by (simp add: OAuthGetCode_def has_def get_def navigationRedirectHandler_def
      OAuthRedirectHandler_def JSON_parse_def redirectState_def strict_eq_def)

theorem OAuthGetCode_navigation_return_witness:
  "get (location world_return) ''code'' = Some ''ABC''
   \<and> get (location world_return) ''state'' = Some (state_text ''s-1'')
   \<and> map_of (sessionStorage world_return) (''OAuthState-'' @ appId_text config0) = Some ''s-1''
   \<and> map_of (sessionStorage world_return) (''CodeVerifier-'' @ appId_text config0) = Some ''verifier-1''
   \<and> json_parse env0 (state_text ''s-1'') = Some (JObj [(''state'', JStr ''s-1'')])
   \<and> OAuthGetCode config0 env0 120 True False world_return =
        (Fulfilled (Some ''ABC''), world_return\<lparr>codeVerifier := Some ''verifier-1''\<rparr>)
   \<and> trace (snd (OAuthGetCode config0 env0 120 True False world_return)) = []"
proof -
  have a: "get (location world_return) ''code'' = Some ''ABC''"
    by (simp add: get_def world_return_def redirect_url_def)
  have b: "get (location world_return) ''state'' = Some (state_text ''s-1'')"
    by (simp add: get_def world_return_def redirect_url_def)
  have c: "map_of (sessionStorage world_return) (''OAuthState-'' @ appId_text config0) = Some ''s-1''"
    by (simp add: world_return_def appId_text_def config0_def)
  have d: "map_of (sessionStorage world_return) (''CodeVerifier-'' @ appId_text config0) = Some ''verifier-1''"
    by (simp add: world_return_def appId_text_def config0_def)
  have p: "json_parse env0 (state_text ''s-1'') = Some (JObj [(''state'', JStr ''s-1'')])"
    by (simp add: env0_def parse0_def)
  have q: "map_of [(''state'', JStr ''s-1'')] ''state'' = Some (JStr ''s-1'')" by simp
  have t: "trace world_return = []" by (simp add: world_return_def)
  from OAuthGetCode_navigation_return [OF a b c d p q, of 120 True False] a b c d p t
  show ?thesis by simp
qed

section \<open>The expiry recorded after the code exchange\<close>

lemma OAuth_expiry_later:
  assumes "fst (OAuthCheckToken e w) = Fulfilled False"
    and "OAuthGetCode c e (nullish timeout OAUTH_TIMEOUT) (nullish offlineToken (useOfflineToken c))
           (nullish popupRedirect (usePopupRedirect c)) (snd (OAuthCheckToken e w))
         = (Fulfilled OAuthCode, w2)"
    and "truthy OAuthCode \<or> nullish popupRedirect (usePopupRedirect c)"
    and "exchange_response e = Inr tokenInfo"
    and "nullish offlineToken (useOfflineToken c)"
  shows "fst (OAuth c e timeout offlineToken popupRedirect w) = Fulfilled ()
       \<and> accessTokenExpiresAt (snd (OAuth c e timeout offlineToken popupRedirect w))
           = Some (now e + expires_in tokenInfo)
       \<and> accessToken (snd (OAuth c e timeout offlineToken popupRedirect w))
           = Some (access_token tokenInfo)
       \<and> refreshToken (snd (OAuth c e timeout offlineToken popupRedirect w))
           = refresh_token tokenInfo"
  using assms
  by (cases "OAuthCheckToken e w")
     (auto simp add: OAuth_def OAuthGetTokenInfo_def saveToken_def called_def Let_def
        split: option.splits)

lemma OAuth_esm_expiry:
  assumes "fst (OAuthRefreshedToken e w) = Fulfilled token"
    and "\<not> truthy token"
    and "OAuthGetCode_esm c e (nullish timeout OAUTH_TIMEOUT) (snd (OAuthRefreshedToken e w))
         = (Fulfilled OAuthCode, w2)"
    and "exchange_response e = Inr tokenInfo"
  shows "fst (OAuth_esm c e timeout w) = Fulfilled ()
       \<and> accessTokenExpiresAt (snd (OAuth_esm c e timeout w))
           = Some (now e + expires_in tokenInfo)"
  using assms
  by (cases "OAuthRefreshedToken e w")
     (auto simp add: OAuth_esm_def OAuthGetTokenInfo_def saveToken_def called_def Let_def
        split: option.splits)

lemma esm_popup_code:
  "OAuthGetCode_esm config0
     (env0\<lparr>events := [Message (OAuthRedirect (Some (redirect_url ''s-1''))) True]\<rparr>)
     120 world_return
   = (Fulfilled (Some ''ABC''),
      world_return\<lparr>codeVerifier := Some ''verifier-1'',
        trace := [GetAuthenticationUrl ''https://app.example/redirect'' ''s-1'' (Some ''app'') ''offline'',
                  WindowOpen, AddEventListener, SetTimeout 120000,
                  SetPopupLocation ''https://auth.example/authorize'', PopupFocus,
                  StopImmediatePropagation, PopupClose, RemoveEventListener]\<rparr>)"
proof -
  let ?e = "env0\<lparr>events := [Message (OAuthRedirect (Some (redirect_url ''s-1''))) True]\<rparr>"
  have h: "OAuthRedirectHandler ?e (Some ''s-1'') (redirect_url ''s-1'') = Resolve (Some ''ABC'')"
    by (simp add: OAuthRedirectHandler_def JSON_parse_def get_def redirect_url_def env0_def
        parse0_def redirectState_def strict_eq_def)
  have f: "uuid_state env0 = ''s-1''"
    "authUrl_response env0 = Inr (''https://auth.example/authorize'', ''verifier-1'')"
    "window_open env0"
    by (simp_all add: env0_def)
  have t: "trace world_return = []" by (simp add: world_return_def)
  show ?thesis
    by (simp add: OAuthGetCode_esm_def OAuthPopupRedirect_def Let_def f
        run_events_def handlePopupRedirect_def popupRedirectHandler_def h
        OAuthResolve_def promise_finally_def popupRedirectCleanup_def called_def
        config0_def t)
qed

text \<open>
  C10. In the later revision: when the liveness check gives \<open>false\<close>, a code was
  obtained, the exchange endpoint answers with a \<open>TokenInfo\<close> and the offline-token mode
  is active, \<open>OAuth\<close> records the expiry \<open>Date.now() + expires_in\<close>; the \<open>expires_in\<close>
  of the endpoint is added as it is to the millisecond timestamp, with no conversion. In
  the earlier revision, which always asks for an offline token, \<open>OAuth\<close> records the
  same sum after every successful exchange.
\<close>

theorem OAuth_expiry:
  "(fst (OAuthCheckToken e w) = Fulfilled False
      \<and> OAuthGetCode c e (nullish timeout OAUTH_TIMEOUT) (nullish offlineToken (useOfflineToken c))
           (nullish popupRedirect (usePopupRedirect c)) (snd (OAuthCheckToken e w))
          = (Fulfilled OAuthCode, w2)
      \<and> (truthy OAuthCode \<or> nullish popupRedirect (usePopupRedirect c))
      \<and> exchange_response e = Inr tokenInfo
      \<and> nullish offlineToken (useOfflineToken c)
    \<longrightarrow> fst (OAuth c e timeout offlineToken popupRedirect w) = Fulfilled ()
      \<and> accessTokenExpiresAt (snd (OAuth c e timeout offlineToken popupRedirect w))
           = Some (now e + expires_in tokenInfo)
      \<and> accessToken (snd (OAuth c e timeout offlineToken popupRedirect w))
           = Some (access_token tokenInfo)
      \<and> refreshToken (snd (OAuth c e timeout offlineToken popupRedirect w))
           = refresh_token tokenInfo)
   \<and> (fst (OAuthRefreshedToken e w) = Fulfilled token
      \<and> \<not> truthy token
      \<and> OAuthGetCode_esm c e (nullish timeout OAUTH_TIMEOUT) (snd (OAuthRefreshedToken e w))
          = (Fulfilled OAuthCode', w2')
      \<and> exchange_response e = Inr tokenInfo
    \<longrightarrow> fst (OAuth_esm c e timeout w) = Fulfilled ()
      \<and> accessTokenExpiresAt (snd (OAuth_esm c e timeout w))
           = Some (now e + expires_in tokenInfo))"
  using OAuth_expiry_later [of e w c timeout offlineToken popupRedirect OAuthCode w2 tokenInfo]
    OAuth_esm_expiry [of e w token c timeout OAuthCode' w2' tokenInfo]
  by blast

theorem OAuth_expiry_witness:
  "fst (OAuthCheckToken (env0\<lparr>checkUser_response := (\<lambda>q. Inl (Error ''Unauthorized'' None))\<rparr>)
          world_return) = Fulfilled False
   \<and> exchange_response env0
       = Inr \<lparr>access_token = ''AT'', refresh_token = Some ''RT'', expires_in = 14400\<rparr>
   \<and> now env0 = 1700000000000
   \<and> fst (OAuth config0 (env0\<lparr>checkUser_response := (\<lambda>q. Inl (Error ''Unauthorized'' None))\<rparr>)
            None None (Some False) world_return) = Fulfilled ()
   \<and> accessTokenExpiresAt (snd (OAuth config0
          (env0\<lparr>checkUser_response := (\<lambda>q. Inl (Error ''Unauthorized'' None))\<rparr>)
            None None (Some False) world_return)) = Some 1700000014400
   \<and> fst (OAuthRefreshedToken
          (env0\<lparr>events := [Message (OAuthRedirect (Some (redirect_url ''s-1''))) True]\<rparr>)
          world_return) = Fulfilled None
   \<and> fst (OAuth_esm config0
          (env0\<lparr>events := [Message (OAuthRedirect (Some (redirect_url ''s-1''))) True]\<rparr>)
          None world_return) = Fulfilled ()
   \<and> accessTokenExpiresAt (snd (OAuth_esm config0
          (env0\<lparr>events := [Message (OAuthRedirect (Some (redirect_url ''s-1''))) True]\<rparr>)
          None world_return)) = Some 1700000014400"
proof -
  let ?e = "env0\<lparr>checkUser_response := (\<lambda>q. Inl (Error ''Unauthorized'' None))\<rparr>"
  let ?p = "env0\<lparr>events := [Message (OAuthRedirect (Some (redirect_url ''s-1''))) True]\<rparr>"
  let ?ti = "\<lparr>access_token = ''AT'', refresh_token = Some ''RT'', expires_in = 14400\<rparr>"
  let ?w1 = "called (CheckUser ''q-1'') world_return"
  have chk: "OAuthCheckToken ?e world_return = (Fulfilled False, ?w1)"
    by (simp add: OAuthCheckToken_def OAuthRefreshToken_def truthy_def world_return_def env0_def)
  have a: "fst (OAuthCheckToken ?e world_return) = Fulfilled False"
    by (simp add: chk)
  have code: "OAuthGetCode config0 ?e (nullish None OAUTH_TIMEOUT)
       (nullish None (useOfflineToken config0)) (nullish (Some False) (usePopupRedirect config0))
       (snd (OAuthCheckToken ?e world_return))
     = (Fulfilled (Some ''ABC''), ?w1\<lparr>codeVerifier := Some ''verifier-1''\<rparr>)"
    unfolding chk
    by (simp add: OAuthGetCode_def has_def get_def navigationRedirectHandler_def
        OAuthRedirectHandler_def JSON_parse_def redirectState_def strict_eq_def
        world_return_def called_def redirect_url_def env0_def parse0_def config0_def
        appId_text_def nullish_def)
  have t: "truthy (Some ''ABC'') \<or> nullish (Some False) (usePopupRedirect config0)"
    by (simp add: truthy_def)
  have x: "exchange_response env0 = Inr ?ti" by (simp add: env0_def)
  have off: "nullish None (useOfflineToken config0)" by (simp add: nullish_def config0_def)
  have n: "now env0 = 1700000000000" by (simp add: env0_def)
  have r: "OAuthRefreshedToken ?p world_return = (Fulfilled None, world_return)"
    by (simp add: OAuthRefreshedToken_def truthy_def world_return_def)
  have nt: "\<not> truthy None" by (simp add: truthy_def)
  have to: "nullish None OAUTH_TIMEOUT = 120" by (simp add: nullish_def OAUTH_TIMEOUT_def)
  from OAuth_expiry [where e = ?e and w = world_return and c = config0 and timeout = None
      and offlineToken = None and popupRedirect = "Some False" and OAuthCode = "Some ''ABC''"
      and ?w2.0 = "?w1\<lparr>codeVerifier := Some ''verifier-1''\<rparr>" and tokenInfo = ?ti]
    a code t x off
  have 1: "fst (OAuth config0 ?e None None (Some False) world_return) = Fulfilled ()
      \<and> accessTokenExpiresAt (snd (OAuth config0 ?e None None (Some False) world_return))
          = Some (now ?e + expires_in ?ti)"
    by simp
  from esm_popup_code obtain w2p where
    pc: "OAuthGetCode_esm config0 ?p 120 world_return = (Fulfilled (Some ''ABC''), w2p)"
    by blast
  from OAuth_expiry [where e = ?p and w = world_return and c = config0 and timeout = None
      and token = None and OAuthCode' = "Some ''ABC''" and w2' = w2p and tokenInfo = ?ti]
    r nt to x pc
  have 2: "fst (OAuth_esm config0 ?p None world_return) = Fulfilled ()
      \<and> accessTokenExpiresAt (snd (OAuth_esm config0 ?p None world_return))
          = Some (now ?p + expires_in ?ti)"
    by simp
  from 1 2 a x n r show ?thesis by simp
qed

section \<open>The popup attempt\<close>

lemma digits_120: "digits 120 = ''120''"
  by (simp add: digits.simps)

lemma handlePopupRedirect_inv: "attempt_inv (handlePopupRedirect t)"
  by (simp add: attempt_inv_def handlePopupRedirect_def)

lemma popupRedirectHandler_effect:
  "popupRedirectHandler e st d src a = a
   \<or> (\<exists>p. popupRedirectHandler e st d src a =
          a\<lparr>promise := (if promise a = Pending then p else promise a),
            calls := calls a @ [StopImmediatePropagation]\<rparr> \<and> p \<noteq> Pending)"
  by (auto simp add: popupRedirectHandler_def OAuthResolve_def OAuthReject_def Let_def
      split: msg_data.splits option.splits handled.splits)

lemma deliver_inv:
  assumes "attempt_inv a"
  shows "attempt_inv (deliver e st t a ev)"
proof (cases ev)
  case (Message d src)
  from popupRedirectHandler_effect [of e st d src a] assms Message show ?thesis
    by (auto simp add: attempt_inv_def promise_finally_def popupRedirectCleanup_def
        split: if_splits)
next
  case TimerFires
  with assms show ?thesis
    by (auto simp add: attempt_inv_def promise_finally_def popupRedirectCleanup_def
        popupTimeoutHandler_def OAuthReject_def split: if_splits)
qed

lemma run_events_inv:
  "attempt_inv a \<Longrightarrow> attempt_inv (run_events e st t a es)"
  unfolding run_events_def
  by (induction es arbitrary: a) (simp_all add: deliver_inv)

lemma deliver_settled:
  assumes "promise a \<noteq> Pending" and "\<not> listening a"
  shows "promise (deliver e st t a ev) = promise a
       \<and> calls (deliver e st t a ev) = calls a
       \<and> listening (deliver e st t a ev) = listening a"
  using assms
  by (cases ev)
     (simp_all add: promise_finally_def popupTimeoutHandler_def OAuthReject_def)

lemma run_events_settled:
  assumes "promise a \<noteq> Pending" and "\<not> listening a"
  shows "promise (run_events e st t a es) = promise a
       \<and> calls (run_events e st t a es) = calls a"
  using assms unfolding run_events_def
proof (induction es arbitrary: a)
  case Nil
  then show ?case by simp
next
  case (Cons ev es)
  from deliver_settled [OF Cons.prems, of e st t ev]
  have d: "promise (deliver e st t a ev) = promise a"
    "calls (deliver e st t a ev) = calls a" "\<not> listening (deliver e st t a ev)"
    using Cons.prems by simp_all
  from d(1) Cons.prems have "promise (deliver e st t a ev) \<noteq> Pending" by simp
  from Cons.IH [OF this d(3)] d show ?case by simp
qed

lemma deliver_timer:
  assumes "attempt_inv a"
  shows "promise (deliver e st t a TimerFires) \<noteq> Pending"
  using assms
  by (auto simp add: attempt_inv_def promise_finally_def popupRedirectCleanup_def
        popupTimeoutHandler_def OAuthReject_def split: if_splits)

lemma run_events_timer:
  assumes "attempt_inv a" and "TimerFires \<in> set es"
  shows "promise (run_events e st t a es) \<noteq> Pending"
proof -
  from assms(2) obtain es1 es2 where es: "es = es1 @ TimerFires # es2"
    by (auto simp add: in_set_conv_decomp)
  let ?a1 = "run_events e st t a es1"
  let ?a2 = "deliver e st t ?a1 TimerFires"
  have i1: "attempt_inv ?a1" by (rule run_events_inv [OF assms(1)])
  have p2: "promise ?a2 \<noteq> Pending" by (rule deliver_timer [OF i1])
  have i2: "attempt_inv ?a2" by (rule deliver_inv [OF i1])
  with p2 have l2: "\<not> listening ?a2" by (simp add: attempt_inv_def)
  have "run_events e st t a es = run_events e st t ?a2 es2"
    by (simp add: es run_events_def)
  with run_events_settled [OF p2 l2, of e st t es2] p2 show ?thesis by simp
qed

lemma popupRedirectHandler_terminal:
  "promise (popupRedirectHandler e st d src a) = promise a
   \<or> terminal t (promise (popupRedirectHandler e st d src a))"
  by (auto simp add: popupRedirectHandler_def OAuthResolve_def OAuthReject_def Let_def
      OAuthRedirectHandler_def terminal_def
      split: msg_data.splits option.splits handled.splits sum.splits if_splits)

lemma promise_finally_promise: "promise (promise_finally b a) = promise a"
  by (simp add: promise_finally_def popupRedirectCleanup_def)

lemma deliver_terminal:
  assumes "promise a = Pending \<or> terminal t (promise a)"
  shows "promise (deliver e st t a ev) = Pending \<or> terminal t (promise (deliver e st t a ev))"
proof (cases ev)
  case (Message d src)
  from popupRedirectHandler_terminal [of e st d src a t] assms Message show ?thesis
    by (auto simp add: promise_finally_promise)
next
  case TimerFires
  with assms show ?thesis
    by (auto simp add: promise_finally_promise popupTimeoutHandler_def OAuthReject_def terminal_def)
qed

lemma run_events_terminal:
  "promise a = Pending \<or> terminal t (promise a) \<Longrightarrow>
   promise (run_events e st t a es) = Pending \<or> terminal t (promise (run_events e st t a es))"
  unfolding run_events_def
  by (induction es arbitrary: a) (simp_all add: deliver_terminal)

text \<open>
  C4. After any sequence of message events and timer expiry delivered to an attempt set up
  by \<open>#handlePopupRedirect\<close>: while the promise is pending, the listener is registered
  and the cleanup has not run; once the promise is settled, it is settled by one of the
  three terminal events, the popup was closed once and the listener removed once, and no
  later event changes the promise or issues another call, so no second terminal event
  takes effect and the cleanup does not run again. Once the timer has fired the promise
  is settled.
\<close>

theorem popup_attempt_settles_once:
  "(promise (run_events e st t (handlePopupRedirect t) es) = Pending \<longrightarrow>
      listening (run_events e st t (handlePopupRedirect t) es)
      \<and> count_list (calls (run_events e st t (handlePopupRedirect t) es)) PopupClose = 0
      \<and> count_list (calls (run_events e st t (handlePopupRedirect t) es)) RemoveEventListener = 0)
   \<and> (promise (run_events e st t (handlePopupRedirect t) es) \<noteq> Pending \<longrightarrow>
      terminal t (promise (run_events e st t (handlePopupRedirect t) es))
      \<and> \<not> listening (run_events e st t (handlePopupRedirect t) es)
      \<and> count_list (calls (run_events e st t (handlePopupRedirect t) es)) PopupClose = 1
      \<and> count_list (calls (run_events e st t (handlePopupRedirect t) es)) RemoveEventListener = 1
      \<and> (\<forall>later.
            promise (run_events e st t (run_events e st t (handlePopupRedirect t) es) later)
              = promise (run_events e st t (handlePopupRedirect t) es)
          \<and> calls (run_events e st t (run_events e st t (handlePopupRedirect t) es) later)
              = calls (run_events e st t (handlePopupRedirect t) es)))
   \<and> (TimerFires \<in> set es \<longrightarrow>
      promise (run_events e st t (handlePopupRedirect t) es) \<noteq> Pending)"
proof -
  let ?a = "run_events e st t (handlePopupRedirect t) es"
  have inv: "attempt_inv ?a"
    by (rule run_events_inv [OF handlePopupRedirect_inv])
  have tm: "promise ?a = Pending \<or> terminal t (promise ?a)"
    by (rule run_events_terminal) (simp add: handlePopupRedirect_def)
  have 1: "promise ?a = Pending \<longrightarrow>
      listening ?a \<and> count_list (calls ?a) PopupClose = 0
      \<and> count_list (calls ?a) RemoveEventListener = 0"
    using inv by (simp add: attempt_inv_def)
  have 2: "promise ?a \<noteq> Pending \<longrightarrow>
      \<not> listening ?a \<and> count_list (calls ?a) PopupClose = 1
      \<and> count_list (calls ?a) RemoveEventListener = 1"
    using inv by (simp add: attempt_inv_def)
  have 3: "promise ?a \<noteq> Pending \<longrightarrow>
      (\<forall>later. promise (run_events e st t ?a later) = promise ?a
           \<and> calls (run_events e st t ?a later) = calls ?a)"
    using 2 run_events_settled [of ?a e st t] by blast
  have 4: "TimerFires \<in> set es \<longrightarrow> promise ?a \<noteq> Pending"
    using run_events_timer [OF handlePopupRedirect_inv] by blast
  from 1 2 3 4 tm show ?thesis by blast
qed

theorem popup_attempt_settles_once_witness:
  "promise (run_events env0 ''s-1'' 120 (handlePopupRedirect 120)
      [Message (OAuthRedirect (Some (redirect_url ''s-1''))) True, TimerFires])
     = Fulfilled (Some ''ABC'')
   \<and> calls (run_events env0 ''s-1'' 120 (handlePopupRedirect 120)
      [Message (OAuthRedirect (Some (redirect_url ''s-1''))) True, TimerFires])
     = [AddEventListener, SetTimeout 120000, StopImmediatePropagation, PopupClose,
        RemoveEventListener]
   \<and> count_list (calls (run_events env0 ''s-1'' 120 (handlePopupRedirect 120)
      [Message (OAuthRedirect (Some (redirect_url ''s-1''))) True, TimerFires])) PopupClose = 1
   \<and> promise (run_events env0 ''s-1'' 120 (handlePopupRedirect 120) [TimerFires])
     = Rejected (Error ''OAuth timed out after 120 seconds.'' None)
   \<and> count_list (calls (run_events env0 ''s-1'' 120 (handlePopupRedirect 120) [TimerFires]))
        PopupClose = 1
   \<and> promise (run_events env0 ''s-1'' 120 (handlePopupRedirect 120) []) = Pending
   \<and> count_list (calls (run_events env0 ''s-1'' 120 (handlePopupRedirect 120) []))
        PopupClose = 0"
proof -
  let ?m = "[Message (OAuthRedirect (Some (redirect_url ''s-1''))) True, TimerFires]"
  have h: "OAuthRedirectHandler env0 (Some ''s-1'') (redirect_url ''s-1'') = Resolve (Some ''ABC'')"
    by (simp add: OAuthRedirectHandler_def JSON_parse_def get_def redirect_url_def env0_def
        parse0_def redirectState_def strict_eq_def)
  have p1: "promise (run_events env0 ''s-1'' 120 (handlePopupRedirect 120) ?m)
      = Fulfilled (Some ''ABC'')"
    by (simp add: run_events_def handlePopupRedirect_def popupRedirectHandler_def h
        OAuthResolve_def promise_finally_def popupRedirectCleanup_def
        popupTimeoutHandler_def OAuthReject_def)
  have c1: "calls (run_events env0 ''s-1'' 120 (handlePopupRedirect 120) ?m)
      = [AddEventListener, SetTimeout 120000, StopImmediatePropagation, PopupClose,
         RemoveEventListener]"
    by (simp add: run_events_def handlePopupRedirect_def popupRedirectHandler_def h
        OAuthResolve_def promise_finally_def popupRedirectCleanup_def
        popupTimeoutHandler_def OAuthReject_def)
  have p2: "promise (run_events env0 ''s-1'' 120 (handlePopupRedirect 120) [TimerFires])
      = Rejected (Error ''OAuth timed out after 120 seconds.'' None)"
    by (simp add: run_events_def handlePopupRedirect_def promise_finally_def
        popupRedirectCleanup_def popupTimeoutHandler_def OAuthReject_def digits_120)
  have p3: "promise (run_events env0 ''s-1'' 120 (handlePopupRedirect 120) []) = Pending"
    by (simp add: run_events_def handlePopupRedirect_def)
  from popup_attempt_settles_once [of env0 "''s-1''" 120 ?m]
       popup_attempt_settles_once [of env0 "''s-1''" 120 "[TimerFires]"]
       popup_attempt_settles_once [of env0 "''s-1''" 120 "[]"]
       p1 c1 p2 p3
  show ?thesis by simp
qed

section \<open>The chunked upload\<close>

lemma ceil_div_nat:
  fixes n c :: nat
  assumes C: "0 < c"
  shows "nat \<lceil>real n / real c\<rceil> = (n + c - 1) div c"
proof -
  define k where "k = (n + c - 1) div c"
  define m where "m = (n + c - 1) mod c"
  have eq: "k * c + m = n + c - 1"
    unfolding k_def m_def by (rule div_mult_mod_eq)
  have m: "m < c" unfolding m_def using C by simp
  from eq m C have up: "n \<le> k * c" by linarith
  from eq C have lo: "k * c < n + c" by linarith
  have "\<lceil>real n / real c\<rceil> = int k"
  proof (rule ceiling_unique)
    from lo have "real (k * c) < real (n + c)" by (simp only: of_nat_less_iff)
    then have "(real k - 1) * real c < real n" by (simp add: algebra_simps)
    with C show "of_int (int k) - 1 < real n / real c"
      by (simp add: pos_less_divide_eq)
    from up have "real n \<le> real (k * c)" by (simp only: of_nat_le_iff)
    with C show "real n / real c \<le> of_int (int k)"
      by (simp add: pos_divide_le_eq)
  qed
  then show ?thesis by (simp add: k_def)
qed

lemma CHUNK_SIZE_pos: "0 < CHUNK_SIZE"
  by (simp add: CHUNK_SIZE_def)

lemma chunk_count_div: "chunk_count n = (n + CHUNK_SIZE - 1) div CHUNK_SIZE"
  unfolding chunk_count_def by (rule ceil_div_nat [OF CHUNK_SIZE_pos])

lemma append_chunks_all_accepted:
  "\<forall>i \<in> set idxs. sessionAppend_response e i = None \<Longrightarrow>
   append_chunks e sid fileChunks idxs w =
     (None, w\<lparr>trace := trace w @
        map (\<lambda>i. FilesUploadSessionAppendV2 sid (i * CHUNK_SIZE) (fileChunks ! i)) idxs\<rparr>)"
proof (induction idxs arbitrary: w)
  case Nil
  then show ?case by simp
next
  case (Cons i idxs)
  then show ?case by (simp add: called_def)
qed

lemma append_chunks_extends:
  "\<exists>ext. trace (snd (append_chunks e sid fileChunks idxs w)) = trace w @ ext"
proof (induction idxs arbitrary: w)
  case Nil
  then show ?case by simp
next
  case (Cons i idxs)
  show ?case
  proof (cases "sessionAppend_response e i")
    case None
    from Cons [of "called (FilesUploadSessionAppendV2 sid (i * CHUNK_SIZE) (fileChunks ! i)) w"]
    obtain ext where "trace (snd (append_chunks e sid fileChunks idxs
        (called (FilesUploadSessionAppendV2 sid (i * CHUNK_SIZE) (fileChunks ! i)) w)))
      = trace (called (FilesUploadSessionAppendV2 sid (i * CHUNK_SIZE) (fileChunks ! i)) w) @ ext"
      by blast
    with None show ?thesis by (simp add: called_def)
  next
    case (Some r)
    then show ?thesis by (simp add: called_def)
  qed
qed

lemma offsets_increasing: "sorted_wrt (<) (map (\<lambda>i. i * CHUNK_SIZE) [0 ..< n])"
  using CHUNK_SIZE_pos by (simp add: sorted_wrt_iff_nth_less)

text \<open>
  C6. For a file of size \<open>S\<close>, when the session start gives the handle \<open>sid\<close> and every
  append is accepted, \<open>#uploadLargeFile\<close> issues, after the session start, exactly
  \<open>ceil(S / C)\<close> appends for \<open>C = 12 * 1024 * 1024\<close>, the \<open>i\<close>-th with the handle
  \<open>sid\<close> and the cursor offset \<open>i * C\<close>, in strictly increasing order of offset, and
  then one finish call with the handle \<open>sid\<close> and the cursor offset \<open>S\<close>.
\<close>

theorem uploadLargeFile_appends:
  assumes "sessionStart_response e = Inr sid"
    and "\<forall>i < chunk_count (file_size f). sessionAppend_response e i = None"
  shows "trace (snd (uploadLargeFile e f w)) =
           trace w @ [FilesUploadSessionStart]
             @ map (\<lambda>i. FilesUploadSessionAppendV2 sid (i * CHUNK_SIZE)
                          (slice f (i * CHUNK_SIZE) ((i + 1) * CHUNK_SIZE)))
                 [0 ..< chunk_count (file_size f)]
             @ [FilesUploadSessionFinish sid (file_size f) (''/'' @ file_name f)]
       \<and> chunk_count (file_size f) = nat \<lceil>real (file_size f) / real (12 * 1024 * 1024 :: nat)\<rceil>
       \<and> CHUNK_SIZE = 12 * 1024 * 1024
       \<and> sorted_wrt (<) (map (\<lambda>i. i * CHUNK_SIZE) [0 ..< chunk_count (file_size f)])"
proof -
  let ?n = "chunk_count (file_size f)"
  let ?chunks = "map (\<lambda>chunkIdx. slice f (chunkIdx * CHUNK_SIZE) ((chunkIdx + 1) * CHUNK_SIZE)) [0 ..< ?n]"
  let ?w1 = "called FilesUploadSessionStart w"
  from assms(2) have ok: "\<forall>i \<in> set [0 ..< length ?chunks]. sessionAppend_response e i = None"
    by simp
  have nth: "map (\<lambda>i. FilesUploadSessionAppendV2 sid (i * CHUNK_SIZE) (?chunks ! i)) [0 ..< ?n]
      = map (\<lambda>i. FilesUploadSessionAppendV2 sid (i * CHUNK_SIZE)
                          (slice f (i * CHUNK_SIZE) ((i + 1) * CHUNK_SIZE))) [0 ..< ?n]"
    by (rule map_cong) simp_all
  have loop: "append_chunks e sid ?chunks [0 ..< length ?chunks] ?w1 =
     (None, ?w1\<lparr>trace := trace ?w1 @
        map (\<lambda>i. FilesUploadSessionAppendV2 sid (i * CHUNK_SIZE) (?chunks ! i)) [0 ..< length ?chunks]\<rparr>)"
    by (rule append_chunks_all_accepted [OF ok])
  have len: "length ?chunks = ?n" by simp
  have "trace (snd (uploadLargeFile e f w)) =
           trace w @ [FilesUploadSessionStart]
             @ map (\<lambda>i. FilesUploadSessionAppendV2 sid (i * CHUNK_SIZE) (?chunks ! i)) [0 ..< ?n]
             @ [FilesUploadSessionFinish sid (file_size f) (''/'' @ file_name f)]"
    using loop unfolding len
    by (simp add: uploadLargeFile_def assms(1) called_def Let_def split: sum.splits)
  then have 1: "trace (snd (uploadLargeFile e f w)) =
           trace w @ [FilesUploadSessionStart]
             @ map (\<lambda>i. FilesUploadSessionAppendV2 sid (i * CHUNK_SIZE)
                          (slice f (i * CHUNK_SIZE) ((i + 1) * CHUNK_SIZE))) [0 ..< ?n]
             @ [FilesUploadSessionFinish sid (file_size f) (''/'' @ file_name f)]"
    unfolding nth .
  have 2: "?n = nat \<lceil>real (file_size f) / real (12 * 1024 * 1024 :: nat)\<rceil>"
    unfolding chunk_count_def CHUNK_SIZE_def ..
  have 3: "CHUNK_SIZE = 12 * 1024 * 1024" by (rule CHUNK_SIZE_def)
  from 1 2 3 offsets_increasing [of ?n] show ?thesis by blast
qed

theorem uploadLargeFile_appends_witness:
  "sessionStart_response env0 = Inr ''sid-1''
   \<and> chunk_count 157286401 = 13
   \<and> trace (snd (uploadLargeFile env0 \<lparr>file_name = ''big.bin'', file_size = 157286401\<rparr> world0)) =
        [FilesUploadSessionStart]
          @ map (\<lambda>i. FilesUploadSessionAppendV2 ''sid-1'' (i * CHUNK_SIZE)
                       (slice \<lparr>file_name = ''big.bin'', file_size = 157286401\<rparr>
                          (i * CHUNK_SIZE) ((i + 1) * CHUNK_SIZE)))
              [0 ..< 13]
          @ [FilesUploadSessionFinish ''sid-1'' 157286401 ''/big.bin'']"
proof -
  let ?f = "\<lparr>file_name = ''big.bin'', file_size = 157286401\<rparr>"
  have a: "sessionStart_response env0 = Inr ''sid-1''" by (simp add: env0_def)
  have b: "\<forall>i < chunk_count (file_size ?f). sessionAppend_response env0 i = None"
    by (simp add: env0_def)
  have n: "chunk_count 157286401 = 13"
    by (simp add: chunk_count_div CHUNK_SIZE_def)
  have t: "trace world0 = []" by (simp add: world0_def)
  from uploadLargeFile_appends [OF a b, of world0] a n t show ?thesis by simp
qed

section \<open>The dispatch on the file size\<close>

lemma uploadLargeFile_starts_session:
  "\<exists>rest. trace (snd (uploadLargeFile e f w)) = trace w @ FilesUploadSessionStart # rest"
proof (cases "sessionStart_response e")
  case (Inl r)
  then show ?thesis by (simp add: uploadLargeFile_def called_def)
next
  case (Inr sid)
  let ?chunks = "map (\<lambda>chunkIdx. slice f (chunkIdx * CHUNK_SIZE) ((chunkIdx + 1) * CHUNK_SIZE))
      [0 ..< chunk_count (file_size f)]"
  let ?w1 = "called FilesUploadSessionStart w"
  obtain r w2 where l: "append_chunks e sid ?chunks [0 ..< length ?chunks] ?w1 = (r, w2)"
    by (cases "append_chunks e sid ?chunks [0 ..< length ?chunks] ?w1")
  from append_chunks_extends [of e sid ?chunks "[0 ..< length ?chunks]" ?w1] l
  obtain ext where x: "trace w2 = trace w @ FilesUploadSessionStart # ext"
    by (auto simp add: called_def)
  show ?thesis
  proof (cases r)
    case None
    with Inr l x show ?thesis
      by (cases "sessionFinish_response e") (simp_all add: uploadLargeFile_def called_def Let_def)
  next
    case (Some a)
    with Inr l x show ?thesis
      by (simp add: uploadLargeFile_def Let_def)
  qed
qed

text \<open>
  C7. Once \<open>OAuth\<close> has returned, \<open>uploadFile\<close> dispatches on the size against
  \<open>150 * 1024 * 1024\<close>: below it the single call \<open>filesUpload\<close> is issued, as
  \<open>#uploadSmallFile\<close> does; from it on the first call is the session start, as
  \<open>#uploadLargeFile\<close> does. A file of \<open>150 * 1024 * 1024 - 1\<close> bytes takes the first
  path and one of \<open>150 * 1024 * 1024 + 1\<close> bytes the second.
\<close>

theorem uploadFile_dispatch:
  assumes "OAuth c e timeout None None w = (Fulfilled (), w1)"
  shows "(file_size f < 150 * 1024 * 1024 \<longrightarrow>
            snd (uploadFile c e f timeout w) = snd (uploadSmallFile e f ''/'' w1)
          \<and> trace (snd (uploadFile c e f timeout w)) = trace w1 @ [FilesUpload (''/'' @ file_name f)])
       \<and> (150 * 1024 * 1024 \<le> file_size f \<longrightarrow>
            snd (uploadFile c e f timeout w) = snd (uploadLargeFile e f w1)
          \<and> (\<exists>rest. trace (snd (uploadFile c e f timeout w))
                      = trace w1 @ FilesUploadSessionStart # rest))"
proof -
  have small: "trace (snd (uploadSmallFile e f ''/'' w1)) = trace w1 @ [FilesUpload (''/'' @ file_name f)]"
    by (cases "filesUpload_response e") (simp_all add: uploadSmallFile_def called_def)
  have s: "snd (uploadFile c e f timeout w) = snd (uploadSmallFile e f ''/'' w1)"
    if "file_size f < 150 * 1024 * 1024"
  proof (cases "uploadSmallFile e f ''/'' w1")
    case (Pair o2 w2)
    with that assms show ?thesis
      by (cases o2) (simp_all add: uploadFile_def FILE_SIZE_LIMIT_def)
  qed
  have l: "snd (uploadFile c e f timeout w) = snd (uploadLargeFile e f w1)"
    if "150 * 1024 * 1024 \<le> file_size f"
  proof (cases "uploadLargeFile e f w1")
    case (Pair o2 w2)
    with that assms show ?thesis
      by (cases o2) (simp_all add: uploadFile_def FILE_SIZE_LIMIT_def)
  qed
  from s l small uploadLargeFile_starts_session [of e f w1] show ?thesis by simp
qed

theorem uploadFile_dispatch_witness:
  "OAuth config0 env0 None None None world0
     = (Fulfilled (), world0\<lparr>trace := [CheckAndRefreshAccessToken, CheckUser ''q-1'']\<rparr>)
   \<and> trace (snd (uploadFile config0 env0
        \<lparr>file_name = ''a.bin'', file_size = 150 * 1024 * 1024 - 1\<rparr> None world0))
       = [CheckAndRefreshAccessToken, CheckUser ''q-1'', FilesUpload ''/a.bin'']
   \<and> (\<exists>rest. trace (snd (uploadFile config0 env0
        \<lparr>file_name = ''b.bin'', file_size = 150 * 1024 * 1024 + 1\<rparr> None world0))
       = [CheckAndRefreshAccessToken, CheckUser ''q-1'', FilesUploadSessionStart] @ rest)"
proof -
  let ?w1 = "world0\<lparr>trace := [CheckAndRefreshAccessToken, CheckUser ''q-1'']\<rparr>"
  have a: "OAuth config0 env0 None None None world0 = (Fulfilled (), ?w1)"
    by (simp add: OAuth_def OAuthCheckToken_def OAuthRefreshToken_def
        checkAndRefreshAccessToken_def env0_def world0_def truthy_def called_def)
  have t: "trace ?w1 = [CheckAndRefreshAccessToken, CheckUser ''q-1'']" by simp
  let ?A = "\<lparr>file_name = ''a.bin'', file_size = 150 * 1024 * 1024 - 1\<rparr>"
  let ?B = "\<lparr>file_name = ''b.bin'', file_size = 150 * 1024 * 1024 + 1\<rparr>"
  have sa: "file_size ?A < 150 * 1024 * 1024" by simp
  have sb: "150 * 1024 * 1024 \<le> file_size ?B" by simp
  from uploadFile_dispatch [OF a, of ?A] sa
  have "trace (snd (uploadFile config0 env0 ?A None world0))
      = trace ?w1 @ [FilesUpload (''/'' @ file_name ?A)]"
    by blast
  then have 1: "trace (snd (uploadFile config0 env0 ?A None world0))
       = [CheckAndRefreshAccessToken, CheckUser ''q-1'', FilesUpload ''/a.bin'']"
    by simp
  from uploadFile_dispatch [OF a, of ?B] sb
  have "\<exists>rest. trace (snd (uploadFile config0 env0 ?B None world0))
      = trace ?w1 @ FilesUploadSessionStart # rest"
    by blast
  then have 2: "\<exists>rest. trace (snd (uploadFile config0 env0 ?B None world0))
       = [CheckAndRefreshAccessToken, CheckUser ''q-1'', FilesUploadSessionStart] @ rest"
    by simp
  from a 1 2 show ?thesis by blast
qed

end
